theory Spec2Isabelle
  imports Main "HOL-Library.Word"
begin

unbundle bit_operations_syntax

section \<open>Machine words and header constants\<close>

text \<open>
  The file verified here is \<^verbatim>\<open>arch/arm/mm/ioremap.c\<close>. On this port \<^verbatim>\<open>unsigned long\<close>,
  \<^verbatim>\<open>size_t\<close>, \<^verbatim>\<open>unsigned int\<close>, \<^verbatim>\<open>pmd_t\<close> and \<^verbatim>\<open>pte_t\<close> are all 32 bits wide, so every
  address, size, frame number and table entry is a \<open>32 word\<close>: \<open>+\<close> wraps, \<open><\<close> is the
  unsigned comparison of C.

  The constants below are macros of the ARM headers (\<^verbatim>\<open>asm/page.h\<close>, \<^verbatim>\<open>asm/pgtable.h\<close>,
  \<^verbatim>\<open>asm/pgtable-hwdef.h\<close>, \<^verbatim>\<open>asm/sizes.h\<close>, \<^verbatim>\<open>asm/system.h\<close>, \<^verbatim>\<open>linux/vmalloc.h\<close>), which
  \<^verbatim>\<open>ioremap.c\<close> includes but does not define. They carry the values of the two-level
  ARM page table: pages of 4 KiB, a Linux \<^verbatim>\<open>pgd_t\<close> made of two hardware first-level
  entries of 1 MiB each (so \<^verbatim>\<open>PGDIR_SIZE\<close> is 2 MiB), supersections of 16 MiB.
\<close>

type_synonym u32 = "32 word"

definition PAGE_SHIFT :: nat where "PAGE_SHIFT = 12"
definition PAGE_SIZE :: u32 where "PAGE_SIZE = 0x1000"
definition PAGE_MASK :: u32 where "PAGE_MASK = NOT (PAGE_SIZE - 1)"
definition PGDIR_SHIFT :: nat where "PGDIR_SHIFT = 21"
definition PGDIR_SIZE :: u32 where "PGDIR_SIZE = 0x200000"
definition PGDIR_MASK :: u32 where "PGDIR_MASK = NOT (PGDIR_SIZE - 1)"
definition PMD_MASK :: u32 where "PMD_MASK = NOT (0x200000 - 1)"
definition SZ_1M :: u32 where "SZ_1M = 0x100000"
definition SUPERSECTION_SIZE :: u32 where "SUPERSECTION_SIZE = 0x1000000"
definition SUPERSECTION_MASK :: u32 where "SUPERSECTION_MASK = NOT (SUPERSECTION_SIZE - 1)"
definition PTRS_PER_PTE :: nat where "PTRS_PER_PTE = 512"
definition PTRS_PER_PGD :: nat where "PTRS_PER_PGD = 2048"
definition PMD_TYPE_MASK :: u32 where "PMD_TYPE_MASK = 3"
definition PMD_TYPE_TABLE :: u32 where "PMD_TYPE_TABLE = 1"
definition PMD_SECT_SUPER :: u32 where "PMD_SECT_SUPER = 0x40000"
definition CPU_ARCH_ARMv6 :: nat where "CPU_ARCH_ARMv6 = 8"
definition CR_XP :: u32 where "CR_XP = 0x800000"
definition VM_IOREMAP :: u32 where "VM_IOREMAP = 1"
definition VM_ARM_SECTION_MAPPING :: u32 where "VM_ARM_SECTION_MAPPING = 0x80000000"
definition ENOMEM :: int where "ENOMEM = 12"
definition MAX_SECTIONS :: int where "MAX_SECTIONS = 4"
definition NULL :: u32 where "NULL = 0"

lemmas hw_defs = PAGE_SHIFT_def PAGE_SIZE_def PAGE_MASK_def PGDIR_SHIFT_def PGDIR_SIZE_def
  PGDIR_MASK_def PMD_MASK_def SZ_1M_def SUPERSECTION_SIZE_def SUPERSECTION_MASK_def
  PTRS_PER_PTE_def PTRS_PER_PGD_def PMD_TYPE_MASK_def PMD_TYPE_TABLE_def PMD_SECT_SUPER_def
  CPU_ARCH_ARMv6_def CR_XP_def VM_IOREMAP_def VM_ARM_SECTION_MAPPING_def ENOMEM_def
  MAX_SECTIONS_def NULL_def

text \<open>\<^verbatim>\<open>__pfn_to_phys\<close>, \<^verbatim>\<open>__phys_to_pfn\<close> and \<^verbatim>\<open>PAGE_ALIGN\<close>: shifts and a round-up on
  32-bit words. A frame number of \<open>0x100000\<close> or more has no 32-bit physical address;
  \<^verbatim>\<open>__pfn_to_phys\<close> keeps the low 32 bits of it.\<close>

definition pfn_to_phys :: "u32 \<Rightarrow> u32" where
  "pfn_to_phys pfn = push_bit PAGE_SHIFT pfn"

definition phys_to_pfn :: "u32 \<Rightarrow> u32" where
  "phys_to_pfn paddr = drop_bit PAGE_SHIFT paddr"

definition PAGE_ALIGN :: "u32 \<Rightarrow> u32" where
  "PAGE_ALIGN a = (a + PAGE_SIZE - 1) AND PAGE_MASK"

text \<open>\<^verbatim>\<open>pgd_index\<close> and \<^verbatim>\<open>__pte_index\<close>: the position of an address in the first-level
  table (counted in \<^verbatim>\<open>pgd_t\<close> pairs) and in a leaf table.\<close>

definition pgd_index :: "u32 \<Rightarrow> nat" where
  "pgd_index a = unat (drop_bit PGDIR_SHIFT a)"

definition pte_index :: "u32 \<Rightarrow> nat" where
  "pte_index a = unat (drop_bit PAGE_SHIFT a AND 511)"

text \<open>\<^verbatim>\<open>pgd_addr_end\<close> of \<^verbatim>\<open>asm-generic/pgtable.h\<close>, and \<^verbatim>\<open>pmd_addr_end\<close>, which the ARM
  header folds to its second argument.\<close>

definition pgd_addr_end :: "u32 \<Rightarrow> u32 \<Rightarrow> u32" where
  "pgd_addr_end a end_addr =
     (let boundary = (a + PGDIR_SIZE) AND PGDIR_MASK
      in if boundary - 1 < end_addr - 1 then boundary else end_addr)"

definition pmd_addr_end :: "u32 \<Rightarrow> u32 \<Rightarrow> u32" where
  "pmd_addr_end a end_addr = end_addr"

definition pfn_pte :: "u32 \<Rightarrow> u32 \<Rightarrow> u32" where
  "pfn_pte pfn prot = pfn_to_phys pfn OR prot"

section \<open>Kernel state\<close>

text \<open>
  An address space (\<^verbatim>\<open>struct mm_struct\<close>) holds a first-level table of hardware entries
  (entry \<open>2 * i\<close> and \<open>2 * i + 1\<close> form the \<^verbatim>\<open>pgd_t\<close> number \<open>i\<close>) and the generation
  \<^verbatim>\<open>context.kvm_seq\<close> it last observed. Address spaces live in a store indexed by a
  name, so that \<^verbatim>\<open>current->active_mm\<close> may or may not be \<^verbatim>\<open>init_mm\<close> itself.
\<close>

record mm_struct =
  pgd_tab :: "nat \<Rightarrow> u32"
  kvm_seq :: u32

record vm_struct =
  vm_addr :: u32
  vm_size :: u32
  vm_flags :: u32

record mem_type =
  prot_pte :: u32
  prot_sect :: u32

text \<open>Calls into cache, TLB and allocator code outside this file are recorded, in
  order, in a trace.\<close>

datatype event =
    Flush_cache_vunmap u32 u32
  | Flush_tlb_kernel_range u32 u32
  | Flush_cache_vmap u32 u32
  | Flush_pmd_entry nat
  | Pmd_clear nat
  | Pte_free_kernel u32
  | Vunmap u32
  | Printk string

record kernel =
  mms :: "nat \<Rightarrow> mm_struct"
  active_mm :: nat
  ptes :: "u32 \<Rightarrow> nat \<Rightarrow> u32"
  free_tables :: "u32 list"
  vmlist :: "vm_struct list"
  trace :: "event list"

definition INIT_MM :: nat where "INIT_MM = 0"

definition init_mm :: "kernel \<Rightarrow> mm_struct" where
  "init_mm s = mms s INIT_MM"

definition init_pgd :: "kernel \<Rightarrow> nat \<Rightarrow> u32" where
  "init_pgd s = pgd_tab (init_mm s)"

definition set_init_pgd :: "nat \<Rightarrow> u32 \<Rightarrow> kernel \<Rightarrow> kernel" where
  "set_init_pgd i v s =
     s\<lparr>mms := (mms s)(INIT_MM := (init_mm s)\<lparr>pgd_tab := (pgd_tab (init_mm s))(i := v)\<rparr>)\<rparr>"

definition log :: "event \<Rightarrow> kernel \<Rightarrow> kernel" where
  "log ev s = s\<lparr>trace := trace s @ [ev]\<rparr>"

text \<open>
  What the build and the processor fix for a run: the \<^verbatim>\<open>CONFIG_SMP\<close> switch, the value
  of \<^verbatim>\<open>DOMAIN_IO\<close> (0 only with \<^verbatim>\<open>CONFIG_IO_36\<close>), the CPU identification queries, the
  memory type catalogue, the address the virtual-range allocator answers with, the
  decoding of a table pointer out of a first-level entry, and the bounds of the
  vmalloc region.
\<close>

record config =
  CONFIG_SMP :: bool
  DOMAIN_IO :: nat
  cpu_architecture :: nat
  get_cr :: u32
  cpu_is_xsc3 :: bool
  get_mem_type :: "u32 \<Rightarrow> mem_type option"
  vm_pick :: "vm_struct list \<Rightarrow> u32 \<Rightarrow> u32 option"
  pmd_page_vaddr :: "u32 \<Rightarrow> u32"
  VMALLOC_START :: u32
  VMALLOC_END :: u32

text \<open>
  A call either returns a value, or stops the kernel: \<^verbatim>\<open>BUG()\<close>, \<^verbatim>\<open>BUG_ON\<close>, or a table
  pointer that an increment has carried past the last entry of its table (the C code
  would read or write whatever follows the table). The state at that moment is kept.
\<close>

datatype fatal = BUG_page_already_exists | BUG_ON_addr_ge_end | Out_of_table | Stride_overrun

datatype 'a outcome = Fatal fatal kernel | Ret 'a kernel

fun final_state :: "'a outcome \<Rightarrow> kernel" where
  "final_state (Fatal f s) = s"
| "final_state (Ret r s) = s"

section \<open>Collaborators outside the file\<close>

text \<open>
  Modelled from the spec: the table-level allocation primitive \<^verbatim>\<open>pte_alloc_kernel\<close>
  (\<^verbatim>\<open>linux/mm.h\<close>, \<^verbatim>\<open>mm/memory.c\<close> and \<^verbatim>\<open>asm/pgalloc.h\<close> are not part of the file). It
  locates the leaf table for an address, allocating it on demand when the
  first-level entry is empty, and fails when no table can be obtained. The page
  allocator is the list \<open>free_tables\<close> of first-level entry values for zeroed tables it
  can still hand out; the new table is entered in both halves of the \<^verbatim>\<open>pgd_t\<close>, the
  second half 256 leaf entries further. A leaf slot is a table and an index in it.
\<close>

definition pte_alloc_kernel ::
  "config \<Rightarrow> nat \<Rightarrow> u32 \<Rightarrow> kernel \<Rightarrow> (u32 \<times> nat) option \<times> kernel" where
  "pte_alloc_kernel cfg pmd a s =
     (if init_pgd s pmd = 0 then
        (case free_tables s of
           [] \<Rightarrow> (None, s)
         | v # rest \<Rightarrow>
             (Some (pmd_page_vaddr cfg v, pte_index a),
              set_init_pgd (pmd + 1) (v + 0x400)
                (set_init_pgd pmd v (s\<lparr>free_tables := rest\<rparr>))))
      else (Some (pmd_page_vaddr cfg (init_pgd s pmd), pte_index a), s))"

text \<open>
  Modelled from the spec: reservation and release of a Virtual Area
  (\<^verbatim>\<open>get_vm_area_caller\<close>, \<^verbatim>\<open>get_vm_area\<close> and \<^verbatim>\<open>vunmap\<close> of \<^verbatim>\<open>mm/vmalloc.c\<close>, not part of the
  file). A reservation is page-aligned, includes one guard page and fails for an
  empty size or when the allocator has no space; a release takes the area off the
  list. What a release does to table entries is the allocator's business and is not
  modelled; the call is recorded in the trace.
\<close>

definition get_vm_area :: "config \<Rightarrow> u32 \<Rightarrow> u32 \<Rightarrow> kernel \<Rightarrow> u32 option \<times> kernel" where
  "get_vm_area cfg sz fl s =
     (let sz' = PAGE_ALIGN sz in
      if sz' = 0 then (None, s)
      else (case vm_pick cfg (vmlist s) (sz' + PAGE_SIZE) of
              None \<Rightarrow> (None, s)
            | Some a \<Rightarrow>
                (Some a,
                 s\<lparr>vmlist := \<lparr>vm_addr = a, vm_size = sz' + PAGE_SIZE, vm_flags = fl\<rparr> # vmlist s\<rparr>)))"

definition vunmap :: "u32 \<Rightarrow> kernel \<Rightarrow> kernel" where
  "vunmap a s = log (Vunmap a) (s\<lparr>vmlist := filter (\<lambda>v. vm_addr v \<noteq> a) (vmlist s)\<rparr>)"

text \<open>\<^verbatim>\<open>area->flags |= VM_ARM_SECTION_MAPPING\<close>, the area being the one reserved at \<open>a\<close>.\<close>

definition mark_section_mapping :: "u32 \<Rightarrow> kernel \<Rightarrow> kernel" where
  "mark_section_mapping a s =
     s\<lparr>vmlist := map (\<lambda>v. if vm_addr v = a
                            then v\<lparr>vm_flags := vm_flags v OR VM_ARM_SECTION_MAPPING\<rparr> else v)
                    (vmlist s)\<rparr>"

section \<open>Page-granularity mapping\<close>

text \<open>
  \<^verbatim>\<open>remap_area_pte\<close>: the \<^verbatim>\<open>do ... while (pte++, addr += PAGE_SIZE, addr != end)\<close> loop
  over the leaf slots, after the leaf table has been obtained. \<^verbatim>\<open>set_pte_ext\<close> stores
  the entry.
\<close>

function remap_pte_loop ::
  "u32 \<Rightarrow> nat \<Rightarrow> u32 \<Rightarrow> u32 \<Rightarrow> u32 \<Rightarrow> u32 \<Rightarrow> kernel \<Rightarrow> int outcome" where
  "remap_pte_loop t i a end_addr phys_addr prot s =
     (if PTRS_PER_PTE \<le> i then Fatal Out_of_table s
      else if ptes s t i \<noteq> 0
      then Fatal BUG_page_already_exists (log (Printk ''remap_area_pte: page already exists'') s)
      else
        (let s' = s\<lparr>ptes := (ptes s)(t := (ptes s t)(i := pfn_pte (drop_bit PAGE_SHIFT phys_addr) prot))\<rparr>;
             phys_addr' = phys_addr + PAGE_SIZE;
             a' = a + PAGE_SIZE
         in if a' \<noteq> end_addr then remap_pte_loop t (i + 1) a' end_addr phys_addr' prot s'
            else Ret 0 s'))"
  by pat_completeness auto
termination
  by (relation "measure (\<lambda>(t, i, a, end_addr, phys_addr, prot, s). PTRS_PER_PTE - i)") auto

declare remap_pte_loop.simps [simp del]

definition remap_area_pte ::
  "config \<Rightarrow> nat \<Rightarrow> u32 \<Rightarrow> u32 \<Rightarrow> u32 \<Rightarrow> mem_type \<Rightarrow> kernel \<Rightarrow> int outcome" where
  "remap_area_pte cfg pmd a end_addr phys_addr type s =
     (let prot = prot_pte type in
      case pte_alloc_kernel cfg pmd a s of
        (None, s1) \<Rightarrow> Ret (- ENOMEM) s1
      | (Some (t, i), s1) \<Rightarrow> remap_pte_loop t i a end_addr phys_addr prot s1)"

text \<open>
  \<^verbatim>\<open>remap_area_pmd\<close>. \<^verbatim>\<open>pmd_alloc\<close> is, on the two-level ARM table, the cast of the
  \<^verbatim>\<open>pgd_t\<close> pointer and cannot fail: \<open>pmd\<close> is the index of the first hardware entry of
  the pair. Since \<^verbatim>\<open>pmd_addr_end\<close> answers \<open>end_addr\<close>, the loop body runs once.
\<close>

function remap_pmd_loop ::
  "config \<Rightarrow> nat \<Rightarrow> u32 \<Rightarrow> u32 \<Rightarrow> u32 \<Rightarrow> mem_type \<Rightarrow> kernel \<Rightarrow> int outcome" where
  "remap_pmd_loop cfg pmd a end_addr phys_addr type s =
     (let next = pmd_addr_end a end_addr in
      case remap_area_pte cfg pmd a next phys_addr type s of
        Fatal f s' \<Rightarrow> Fatal f s'
      | Ret ret s' \<Rightarrow>
          if ret \<noteq> 0 then Ret ret s'
          else if next \<noteq> end_addr
          then remap_pmd_loop cfg (pmd + 1) next end_addr (phys_addr + (next - a)) type s'
          else Ret ret s')"
  by pat_completeness auto
termination
  by (relation "{}") (auto simp: pmd_addr_end_def)

declare remap_pmd_loop.simps [simp del]

definition remap_area_pmd ::
  "config \<Rightarrow> nat \<Rightarrow> u32 \<Rightarrow> u32 \<Rightarrow> u32 \<Rightarrow> mem_type \<Rightarrow> kernel \<Rightarrow> int outcome" where
  "remap_area_pmd cfg pgd a end_addr phys_addr type s =
     remap_pmd_loop cfg (2 * pgd) a end_addr phys_addr type s"

text \<open>
  \<^verbatim>\<open>remap_area_pages\<close>: \<open>pgd\<close> is the position of the \<^verbatim>\<open>pgd_t\<close> pointer in the first-level
  table of \<^verbatim>\<open>init_mm\<close>, advanced by \<^verbatim>\<open>pgd++\<close>.
\<close>

function remap_pgd_loop ::
  "config \<Rightarrow> nat \<Rightarrow> u32 \<Rightarrow> u32 \<Rightarrow> u32 \<Rightarrow> mem_type \<Rightarrow> kernel \<Rightarrow> int outcome" where
  "remap_pgd_loop cfg pgd a end_addr phys_addr type s =
     (if PTRS_PER_PGD \<le> pgd then Fatal Out_of_table s
      else
        (let next = pgd_addr_end a end_addr in
         case remap_area_pmd cfg pgd a next phys_addr type s of
           Fatal f s' \<Rightarrow> Fatal f s'
         | Ret err s' \<Rightarrow>
             if err \<noteq> 0 then Ret err s'
             else if next \<noteq> end_addr
             then remap_pgd_loop cfg (pgd + 1) next end_addr (phys_addr + (next - a)) type s'
             else Ret err s'))"
  by pat_completeness auto
termination
  by (relation "measure (\<lambda>(cfg, pgd, a, end_addr, phys_addr, type, s). PTRS_PER_PGD - pgd)") auto

declare remap_pgd_loop.simps [simp del]

definition remap_area_pages ::
  "config \<Rightarrow> u32 \<Rightarrow> u32 \<Rightarrow> u32 \<Rightarrow> mem_type \<Rightarrow> kernel \<Rightarrow> int outcome" where
  "remap_area_pages cfg start pfn sz type s =
     (let a = start; end_addr = start + sz; phys_addr = pfn_to_phys pfn in
      if end_addr \<le> a then Fatal BUG_ON_addr_ge_end s
      else remap_pgd_loop cfg (pgd_index a) a end_addr phys_addr type s)"

definition ioremap_page :: "config \<Rightarrow> u32 \<Rightarrow> u32 \<Rightarrow> mem_type \<Rightarrow> kernel \<Rightarrow> int outcome" where
  "ioremap_page cfg virt phys mtype s =
     remap_area_pages cfg virt (phys_to_pfn phys) PAGE_SIZE mtype s"

section \<open>The lazy synchronisation of address spaces\<close>

text \<open>
  \<^verbatim>\<open>__check_kvm_seq\<close> copies the first-level entries of the vmalloc region from
  \<^verbatim>\<open>init_mm\<close> into \<open>mm\<close> and repeats while the generation of \<^verbatim>\<open>init_mm\<close> read after the
  copy differs from the one read before it. Sequential code cannot change
  \<^verbatim>\<open>init_mm\<close> during the copy; whoever does is an interrupt or another processor. Their
  writes are the list \<open>irqs\<close>: each pass of the loop meets the head of the list, a pair
  of changes to \<^verbatim>\<open>init_mm\<close>, the first applied between the read of the generation and
  the copy, the second after the copy and before the generation is read again. Once
  the list is used up nobody interferes. The copy covers the \<^verbatim>\<open>pgd_t\<close> pairs from
  \<^verbatim>\<open>pgd_index(VMALLOC_START)\<close> up to \<^verbatim>\<open>pgd_index(VMALLOC_END)\<close> and is empty when the latter
  is not the larger.
\<close>

type_synonym irq = "(mm_struct \<Rightarrow> mm_struct) \<times> (mm_struct \<Rightarrow> mm_struct)"

definition interfere :: "(mm_struct \<Rightarrow> mm_struct) \<Rightarrow> kernel \<Rightarrow> kernel" where
  "interfere f s = s\<lparr>mms := (mms s)(INIT_MM := f (init_mm s))\<rparr>"

definition in_kernel_slice :: "config \<Rightarrow> nat \<Rightarrow> bool" where
  "in_kernel_slice cfg j =
     (2 * pgd_index (VMALLOC_START cfg) \<le> j \<and> j < 2 * pgd_index (VMALLOC_END cfg))"

definition memcpy_kernel_pgd :: "config \<Rightarrow> nat \<Rightarrow> kernel \<Rightarrow> kernel" where
  "memcpy_kernel_pgd cfg mm s =
     s\<lparr>mms := (mms s)(mm := (mms s mm)
        \<lparr>pgd_tab := (\<lambda>j. if in_kernel_slice cfg j then init_pgd s j else pgd_tab (mms s mm) j)\<rparr>)\<rparr>"

definition set_kvm_seq :: "nat \<Rightarrow> u32 \<Rightarrow> kernel \<Rightarrow> kernel" where
  "set_kvm_seq mm v s = s\<lparr>mms := (mms s)(mm := (mms s mm)\<lparr>kvm_seq := v\<rparr>)\<rparr>"

definition kvm_seq_pass :: "config \<Rightarrow> irq \<Rightarrow> nat \<Rightarrow> kernel \<Rightarrow> kernel" where
  "kvm_seq_pass cfg i mm s =
     (let seq = kvm_seq (init_mm s);
          s1 = interfere (fst i) s;
          s2 = memcpy_kernel_pgd cfg mm s1;
          s3 = set_kvm_seq mm seq s2
      in interfere (snd i) s3)"

function check_kvm_seq :: "config \<Rightarrow> irq list \<Rightarrow> nat \<Rightarrow> kernel \<Rightarrow> kernel" where
  "check_kvm_seq cfg irqs mm s =
     (let seq = kvm_seq (init_mm s);
          s' = kvm_seq_pass cfg (case irqs of [] \<Rightarrow> (id, id) | i # _ \<Rightarrow> i) mm s
      in if seq \<noteq> kvm_seq (init_mm s') then check_kvm_seq cfg (tl irqs) mm s' else s')"
  by pat_completeness auto
termination
  by (relation "measure (\<lambda>(cfg, irqs, mm, s). length irqs)")
     (auto simp: kvm_seq_pass_def interfere_def memcpy_kernel_pgd_def set_kvm_seq_def
        init_mm_def Let_def split: list.splits if_splits)

declare check_kvm_seq.simps [simp del]

section \<open>Block mappings (uniprocessor builds only)\<close>

text \<open>\<^verbatim>\<open>pmd_clear\<close> of the ARM header empties both halves of the \<^verbatim>\<open>pgd_t\<close>.\<close>

definition pmd_clear :: "nat \<Rightarrow> kernel \<Rightarrow> kernel" where
  "pmd_clear pmdp s = log (Pmd_clear pmdp) (set_init_pgd (pmdp + 1) 0 (set_init_pgd pmdp 0 s))"

definition bump_kvm_seq :: "kernel \<Rightarrow> kernel" where
  "bump_kvm_seq s = set_kvm_seq INIT_MM (kvm_seq (init_mm s) + 1) s"

text \<open>
  \<^verbatim>\<open>unmap_area_sections\<close>. The body of its loop, up to \<^verbatim>\<open>addr += PGDIR_SIZE\<close>, is
  \<open>unmap_pgd_entry\<close>: it reads the first half of the \<^verbatim>\<open>pgd_t\<close> (\<^verbatim>\<open>pmd = *pmdp\<close>); \<open>pgd\<close>
  counts \<^verbatim>\<open>pgd_t\<close> pairs. The refresh of the active address
  space runs with nobody interfering: the function exists on uniprocessor builds
  only.
\<close>

definition unmap_pgd_entry :: "config \<Rightarrow> nat \<Rightarrow> kernel \<Rightarrow> kernel" where
  "unmap_pgd_entry cfg pgd s =
     (let pmdp = 2 * pgd;
          pmd = init_pgd s pmdp
      in if pmd \<noteq> 0 then
           (let s' = bump_kvm_seq (pmd_clear pmdp s)
            in if pmd AND PMD_TYPE_MASK = PMD_TYPE_TABLE
               then log (Pte_free_kernel (pmd_page_vaddr cfg pmd)) s' else s')
         else s)"

function unmap_sections_loop :: "config \<Rightarrow> nat \<Rightarrow> u32 \<Rightarrow> u32 \<Rightarrow> kernel \<Rightarrow> unit outcome" where
  "unmap_sections_loop cfg pgd a end_addr s =
     (if PTRS_PER_PGD \<le> pgd then Fatal Out_of_table s
      else
        (let s1 = unmap_pgd_entry cfg pgd s;
             a' = a + PGDIR_SIZE
         in if a' < end_addr then unmap_sections_loop cfg (pgd + 1) a' end_addr s1
            else Ret () s1))"
  by pat_completeness auto
termination
  by (relation "measure (\<lambda>(cfg, pgd, a, end_addr, s). PTRS_PER_PGD - pgd)") auto

declare unmap_sections_loop.simps [simp del]

definition unmap_area_sections :: "config \<Rightarrow> u32 \<Rightarrow> u32 \<Rightarrow> kernel \<Rightarrow> unit outcome" where
  "unmap_area_sections cfg virt sz s =
     (let a = virt;
          end_addr = virt + (sz AND NOT (SZ_1M - 1));
          s0 = log (Flush_cache_vunmap a end_addr) s
      in case unmap_sections_loop cfg (pgd_index a) a end_addr s0 of
           Fatal f s1 \<Rightarrow> Fatal f s1
         | Ret u s1 \<Rightarrow>
             (let s2 = (if kvm_seq (mms s1 (active_mm s1)) \<noteq> kvm_seq (init_mm s1)
                        then check_kvm_seq cfg [] (active_mm s1) s1 else s1)
              in Ret () (log (Flush_tlb_kernel_range virt end_addr) s2)))"

text \<open>\<^verbatim>\<open>remap_area_sections\<close>: two section entries of 1 MiB per \<^verbatim>\<open>pgd_t\<close>. The body of
  its loop, up to \<^verbatim>\<open>flush_pmd_entry\<close>, is \<open>remap_pgd_sections\<close>; it answers the advanced
  frame number.\<close>

definition remap_pgd_sections :: "nat \<Rightarrow> u32 \<Rightarrow> mem_type \<Rightarrow> kernel \<Rightarrow> u32 \<times> kernel" where
  "remap_pgd_sections pgd pfn type s =
     (let pmd = 2 * pgd;
          s1 = set_init_pgd pmd (pfn_to_phys pfn OR prot_sect type) s;
          pfn1 = pfn + drop_bit PAGE_SHIFT SZ_1M;
          s2 = set_init_pgd (pmd + 1) (pfn_to_phys pfn1 OR prot_sect type) s1;
          pfn2 = pfn1 + drop_bit PAGE_SHIFT SZ_1M
      in (pfn2, log (Flush_pmd_entry pmd) s2))"

function remap_sections_loop ::
  "nat \<Rightarrow> u32 \<Rightarrow> u32 \<Rightarrow> u32 \<Rightarrow> mem_type \<Rightarrow> kernel \<Rightarrow> int outcome" where
  "remap_sections_loop pgd a end_addr pfn type s =
     (if PTRS_PER_PGD \<le> pgd then Fatal Out_of_table s
      else
        (let (pfn', s') = remap_pgd_sections pgd pfn type s;
             a' = a + PGDIR_SIZE
         in if a' < end_addr then remap_sections_loop (pgd + 1) a' end_addr pfn' type s'
            else Ret 0 s'))"
  by pat_completeness auto
termination
  by (relation "measure (\<lambda>(pgd, a, end_addr, pfn, type, s). PTRS_PER_PGD - pgd)") auto

declare remap_sections_loop.simps [simp del]

definition remap_area_sections ::
  "config \<Rightarrow> u32 \<Rightarrow> u32 \<Rightarrow> u32 \<Rightarrow> mem_type \<Rightarrow> kernel \<Rightarrow> int outcome" where
  "remap_area_sections cfg virt pfn sz type s =
     (let a = virt; end_addr = virt + sz in
      case unmap_area_sections cfg virt sz s of
        Fatal f s1 \<Rightarrow> Fatal f s1
      | Ret u s1 \<Rightarrow> remap_sections_loop (pgd_index a) a end_addr pfn type s1)"

text \<open>\<^verbatim>\<open>remap_area_supersections\<close>: the inner \<^verbatim>\<open>for (i = 0; i < 8; i++)\<close> writes the same
  value into eight consecutive \<^verbatim>\<open>pgd_t\<close> pairs and answers the advanced table position
  and address.\<close>

function supersection_for :: "nat \<Rightarrow> nat \<Rightarrow> u32 \<Rightarrow> u32 \<Rightarrow> kernel \<Rightarrow> (nat \<times> u32) outcome" where
  "supersection_for i pgd a super_pmd_val s =
     (if i < 8 then
        (if PTRS_PER_PGD \<le> pgd then Fatal Out_of_table s
         else
           (let pmd = 2 * pgd;
                s1 = set_init_pgd pmd super_pmd_val s;
                s2 = set_init_pgd (pmd + 1) super_pmd_val s1;
                s3 = log (Flush_pmd_entry pmd) s2
            in supersection_for (i + 1) (pgd + 1) (a + PGDIR_SIZE) super_pmd_val s3))
      else Ret (pgd, a) s)"
  by pat_completeness auto
termination
  by (relation "measure (\<lambda>(i, pgd, a, super_pmd_val, s). 8 - i)") auto

declare supersection_for.simps [simp del]

lemma supersection_for_pgd:
  "supersection_for i pgd a v s = Ret (pgd', a') s' \<Longrightarrow> i < 8 \<Longrightarrow> pgd < pgd' \<and> pgd < PTRS_PER_PGD"
proof (induction i pgd a v s rule: supersection_for.induct)
  case (1 i pgd a v s)
  from "1.prems" have ok: "\<not> PTRS_PER_PGD \<le> pgd"
    by (subst (asm) supersection_for.simps) (auto split: if_splits)
  show ?case
  proof (cases "i + 1 < 8")
    case True
    from "1.prems" ok have "supersection_for (i + 1) (pgd + 1) (a + PGDIR_SIZE) v
        (log (Flush_pmd_entry (2 * pgd)) (set_init_pgd (2 * pgd + 1) v (set_init_pgd (2 * pgd) v s)))
        = Ret (pgd', a') s'"
      by (subst (asm) supersection_for.simps) (simp add: Let_def)
    with "1.IH" "1.prems" ok True have "pgd + 1 < pgd'" by (simp add: Let_def)
    with ok show ?thesis by simp
  next
    case False
    from "1.prems" ok have "supersection_for (i + 1) (pgd + 1) (a + PGDIR_SIZE) v
        (log (Flush_pmd_entry (2 * pgd)) (set_init_pgd (2 * pgd + 1) v (set_init_pgd (2 * pgd) v s)))
        = Ret (pgd', a') s'"
      by (subst (asm) supersection_for.simps) (simp add: Let_def)
    with False have "pgd' = pgd + 1"
      by (subst (asm) supersection_for.simps) simp
    with ok show ?thesis by simp
  qed
qed

function remap_supersections_loop ::
  "nat \<Rightarrow> u32 \<Rightarrow> u32 \<Rightarrow> u32 \<Rightarrow> mem_type \<Rightarrow> kernel \<Rightarrow> int outcome" where
  "remap_supersections_loop pgd a end_addr pfn type s =
     (let super_pmd_val = pfn_to_phys pfn OR prot_sect type OR PMD_SECT_SUPER;
          super_pmd_val = super_pmd_val OR push_bit 20 (drop_bit (32 - PAGE_SHIFT) pfn AND 0xf)
      in case supersection_for 0 pgd a super_pmd_val s of
           Fatal f s' \<Rightarrow> Fatal f s'
         | Ret (pgd', a') s' \<Rightarrow>
             (let pfn' = pfn + drop_bit PAGE_SHIFT SUPERSECTION_SIZE
              in if a' < end_addr then remap_supersections_loop pgd' a' end_addr pfn' type s'
                 else Ret 0 s'))"
  by pat_completeness auto
termination
proof (relation "measure (\<lambda>(pgd, a, end_addr, pfn, type, s). PTRS_PER_PGD - pgd)", goal_cases)
  case 1
  show ?case by simp
next
  case (2 pgd a end_addr pfn type s v v' r s' pgd' a')
  then have "supersection_for 0 pgd a v' s = Ret (pgd', a') s'" by simp
  from supersection_for_pgd [OF this] have "pgd < pgd' \<and> pgd < PTRS_PER_PGD" by simp
  then show ?case by simp arith
qed

declare remap_supersections_loop.simps [simp del]

definition remap_area_supersections ::
  "config \<Rightarrow> u32 \<Rightarrow> u32 \<Rightarrow> u32 \<Rightarrow> mem_type \<Rightarrow> kernel \<Rightarrow> int outcome" where
  "remap_area_supersections cfg virt pfn sz type s =
     (let a = virt; end_addr = virt + sz in
      case unmap_area_sections cfg virt sz s of
        Fatal f s1 \<Rightarrow> Fatal f s1
      | Ret u s1 \<Rightarrow> remap_supersections_loop (pgd_index virt) a end_addr pfn type s1)"

section \<open>The mapping entry points\<close>

text \<open>
  The choice between the three mappers is written twice in the file, in
  \<^verbatim>\<open>__arm_ioremap_pfn_caller\<close> over \<open>(pfn, size, addr)\<close> and in \<^verbatim>\<open>__arm_multi_strided_ioremap\<close>
  over \<open>(pfns[i], vstride, addr_i)\<close>, inside \<^verbatim>\<open>#ifndef CONFIG_SMP\<close>. It is stated once
  here.
\<close>

datatype granularity = Supersections | Sections | Pages

definition select_granularity :: "config \<Rightarrow> u32 \<Rightarrow> u32 \<Rightarrow> u32 \<Rightarrow> granularity" where
  "select_granularity cfg pfn sz a =
     (if CONFIG_SMP cfg then Pages
      else if DOMAIN_IO cfg = 0 \<and>
              ((CPU_ARCH_ARMv6 \<le> cpu_architecture cfg \<and> get_cr cfg AND CR_XP \<noteq> 0) \<or>
               cpu_is_xsc3 cfg) \<and>
              0x100000 \<le> pfn \<and>
              (pfn_to_phys pfn OR sz OR a) AND NOT SUPERSECTION_MASK = 0
      then Supersections
      else if (pfn_to_phys pfn OR sz OR a) AND NOT PMD_MASK = 0 then Sections
      else Pages)"

definition arm_ioremap_pfn_caller ::
  "config \<Rightarrow> u32 \<Rightarrow> u32 \<Rightarrow> u32 \<Rightarrow> u32 \<Rightarrow> kernel \<Rightarrow> u32 outcome" where
  "arm_ioremap_pfn_caller cfg pfn offset sz mtype s =
     (if 0x100000 \<le> pfn \<and> pfn_to_phys pfn AND NOT SUPERSECTION_MASK \<noteq> 0 then Ret NULL s
      else
        (case get_mem_type cfg mtype of
           None \<Rightarrow> Ret NULL s
         | Some type \<Rightarrow>
             (let sz = PAGE_ALIGN (offset + sz) in
              case get_vm_area cfg sz VM_IOREMAP s of
                (None, s1) \<Rightarrow> Ret NULL s1
              | (Some a, s1) \<Rightarrow>
                  (case (case select_granularity cfg pfn sz a of
                           Supersections \<Rightarrow>
                             remap_area_supersections cfg a pfn sz type (mark_section_mapping a s1)
                         | Sections \<Rightarrow>
                             remap_area_sections cfg a pfn sz type (mark_section_mapping a s1)
                         | Pages \<Rightarrow> remap_area_pages cfg a pfn sz type s1) of
                     Fatal f s2 \<Rightarrow> Fatal f s2
                   | Ret err s2 \<Rightarrow>
                       if err \<noteq> 0 then Ret NULL (vunmap a s2)
                       else Ret (offset + a) (log (Flush_cache_vmap a (a + sz)) s2)))))"

definition arm_ioremap_caller :: "config \<Rightarrow> u32 \<Rightarrow> u32 \<Rightarrow> u32 \<Rightarrow> kernel \<Rightarrow> u32 outcome" where
  "arm_ioremap_caller cfg phys_addr sz mtype s =
     (let offset = phys_addr AND NOT PAGE_MASK;
          pfn = phys_to_pfn phys_addr;
          last_addr = phys_addr + sz - 1
      in if sz = 0 \<or> last_addr < phys_addr then Ret NULL s
         else arm_ioremap_pfn_caller cfg pfn offset sz mtype s)"

definition arm_ioremap_pfn :: "config \<Rightarrow> u32 \<Rightarrow> u32 \<Rightarrow> u32 \<Rightarrow> u32 \<Rightarrow> kernel \<Rightarrow> u32 outcome" where
  "arm_ioremap_pfn cfg pfn offset sz mtype s = arm_ioremap_pfn_caller cfg pfn offset sz mtype s"

definition arm_ioremap :: "config \<Rightarrow> u32 \<Rightarrow> u32 \<Rightarrow> u32 \<Rightarrow> kernel \<Rightarrow> u32 outcome" where
  "arm_ioremap cfg phys_addr sz mtype s = arm_ioremap_caller cfg phys_addr sz mtype s"

section \<open>The strided multi-region mapper\<close>

text \<open>
  The four array arguments of \<^verbatim>\<open>__arm_multi_strided_ioremap\<close> are pointers: an array is
  the memory behind it, read at any index, and the two stride arrays may be \<^verbatim>\<open>NULL\<close>
  (\<open>None\<close>). \<^verbatim>\<open>pstride\<close> and \<^verbatim>\<open>vstride\<close> are computed the same way in the validation loop
  and in the mapping loop.
\<close>

definition stride_or_size :: "(nat \<Rightarrow> u32) option \<Rightarrow> (nat \<Rightarrow> u32) \<Rightarrow> nat \<Rightarrow> u32" where
  "stride_or_size stride phys_size i =
     (case stride of
        None \<Rightarrow> phys_size i
      | Some st \<Rightarrow> if st i \<noteq> 0 then st i else phys_size i)"

text \<open>The first loop: \<open>None\<close> is \<^verbatim>\<open>return NULL\<close>, otherwise the total size and the frame
  numbers \<^verbatim>\<open>pfns\<close> are answered.\<close>

function strided_validate ::
  "int \<Rightarrow> (nat \<Rightarrow> u32) \<Rightarrow> (nat \<Rightarrow> u32) \<Rightarrow> (nat \<Rightarrow> u32) option \<Rightarrow> (nat \<Rightarrow> u32) option \<Rightarrow>
   int \<Rightarrow> u32 \<Rightarrow> (nat \<Rightarrow> u32) \<Rightarrow> (u32 \<times> (nat \<Rightarrow> u32)) option" where
  "strided_validate sections phys_addr phys_size phys_stride virt_stride i total_size pfns =
     (if i < sections then
        (let k = nat i;
             pstride = stride_or_size phys_stride phys_size k;
             vstride = stride_or_size virt_stride phys_size k
         in if (pstride = 0) \<noteq> (vstride = 0) then None
            else if (phys_addr k OR phys_size k OR vstride OR pstride) AND NOT PAGE_MASK \<noteq> 0 \<or>
                    phys_size k = 0 \<or>
                    pstride < vstride \<or>
                    (pstride \<noteq> 0 \<and> phys_size k mod pstride \<noteq> 0) \<or>
                    phys_addr k + phys_size k - 1 < phys_addr k
            then None
            else
              (let pfn = phys_to_pfn (phys_addr k)
               in if 0x100000 \<le> pfn \<and> pfn_to_phys pfn AND NOT SUPERSECTION_MASK \<noteq> 0 then None
                  else strided_validate sections phys_addr phys_size phys_stride virt_stride
                         (i + 1) (total_size + phys_size k div pstride * vstride) (pfns(k := pfn))))
      else Some (total_size, pfns))"
  by pat_completeness auto
termination
  by (relation "measure (\<lambda>(sections, pa, ps, pst, vst, i, total, pfns). nat (sections - i))") auto

declare strided_validate.simps [simp del]

text \<open>One step of the inner loop: the dispatch at the virtual cursor \<open>addr_i\<close>. The
  supersection branch passes the size of the whole region, the other two the virtual
  stride, as the source does.\<close>

definition strided_step ::
  "config \<Rightarrow> u32 \<Rightarrow> mem_type \<Rightarrow> u32 \<Rightarrow> u32 \<Rightarrow> u32 \<Rightarrow> u32 \<Rightarrow> kernel \<Rightarrow> int outcome" where
  "strided_step cfg area type psize vstride pfn addr_i s =
     (case select_granularity cfg pfn vstride addr_i of
        Supersections \<Rightarrow>
          remap_area_supersections cfg addr_i pfn psize type (mark_section_mapping area s)
      | Sections \<Rightarrow> remap_area_sections cfg addr_i pfn vstride type (mark_section_mapping area s)
      | Pages \<Rightarrow> remap_area_pages cfg addr_i pfn vstride type s)"

text \<open>
  The inner loop \<^verbatim>\<open>for (j = 0; j < phys_size[i]; j += pstride)\<close>. It does not look at
  \<^verbatim>\<open>err\<close>: each step overwrites it. A stride that does not advance \<open>j\<close> (zero, or past
  the end of the word) would never leave the loop; the validation loop excludes it.
\<close>

function strided_inner ::
  "config \<Rightarrow> u32 \<Rightarrow> mem_type \<Rightarrow> u32 \<Rightarrow> u32 \<Rightarrow> u32 \<Rightarrow> u32 \<Rightarrow> u32 \<Rightarrow> u32 \<Rightarrow> int \<Rightarrow> kernel \<Rightarrow>
   (u32 \<times> u32 \<times> int) outcome" where
  "strided_inner cfg area type psize pstride vstride j pfn addr_i err s =
     (if j < psize then
        (case strided_step cfg area type psize vstride pfn addr_i s of
           Fatal f s' \<Rightarrow> Fatal f s'
         | Ret err' s' \<Rightarrow>
             if j + pstride \<le> j then Fatal Stride_overrun s'
             else strided_inner cfg area type psize pstride vstride (j + pstride)
                    (pfn + phys_to_pfn pstride) (addr_i + vstride) err' s')
      else Ret (pfn, addr_i, err) s)"
  by pat_completeness auto
termination
  by (relation "measure (\<lambda>(cfg, area, type, psize, pstride, vstride, j, pfn, addr_i, err, s).
        unat psize - unat j)")
     (auto simp: word_less_nat_alt word_le_nat_alt not_le)

declare strided_inner.simps [simp del]

text \<open>The outer loop \<^verbatim>\<open>for (i = 0; i < sections && !err; i++)\<close>.\<close>

function strided_outer ::
  "config \<Rightarrow> u32 \<Rightarrow> mem_type \<Rightarrow> int \<Rightarrow> (nat \<Rightarrow> u32) \<Rightarrow> (nat \<Rightarrow> u32) option \<Rightarrow>
   (nat \<Rightarrow> u32) option \<Rightarrow> int \<Rightarrow> (nat \<Rightarrow> u32) \<Rightarrow> u32 \<Rightarrow> int \<Rightarrow> kernel \<Rightarrow> int outcome" where
  "strided_outer cfg area type sections phys_size phys_stride virt_stride i pfns addr_i err s =
     (if i < sections \<and> err = 0 then
        (let k = nat i;
             s0 = log (Printk ''mapping'') s;
             pstride = stride_or_size phys_stride phys_size k;
             vstride = stride_or_size virt_stride phys_size k
         in case strided_inner cfg area type (phys_size k) pstride vstride 0 (pfns k) addr_i err s0 of
              Fatal f s' \<Rightarrow> Fatal f s'
            | Ret (pfn', addr_i', err') s' \<Rightarrow>
                strided_outer cfg area type sections phys_size phys_stride virt_stride
                  (i + 1) (pfns(k := pfn')) addr_i' err' s')
      else Ret err s)"
  by pat_completeness auto
termination
  by (relation "measure (\<lambda>(cfg, area, type, sections, ps, pst, vst, i, pfns, addr_i, err, s).
        nat (sections - i))") auto

declare strided_outer.simps [simp del]

definition arm_multi_strided_ioremap ::
  "config \<Rightarrow> int \<Rightarrow> (nat \<Rightarrow> u32) \<Rightarrow> (nat \<Rightarrow> u32) \<Rightarrow> (nat \<Rightarrow> u32) option \<Rightarrow> (nat \<Rightarrow> u32) option \<Rightarrow>
   u32 \<Rightarrow> kernel \<Rightarrow> u32 outcome" where
  "arm_multi_strided_ioremap cfg sections phys_addr phys_size phys_stride virt_stride mtype s =
     (if MAX_SECTIONS < sections then Ret NULL s
      else
        (case strided_validate sections phys_addr phys_size phys_stride virt_stride 0 0 (\<lambda>k. 0) of
           None \<Rightarrow> Ret NULL s
         | Some (total_size, pfns) \<Rightarrow>
             (case get_mem_type cfg mtype of
                None \<Rightarrow> Ret NULL s
              | Some type \<Rightarrow>
                  (case get_vm_area cfg total_size VM_IOREMAP s of
                     (None, s1) \<Rightarrow> Ret NULL s1
                   | (Some a, s1) \<Rightarrow>
                       (case strided_outer cfg a type sections phys_size phys_stride virt_stride
                               0 pfns a 0 s1 of
                          Fatal f s2 \<Rightarrow> Fatal f s2
                        | Ret err s2 \<Rightarrow>
                            if err \<noteq> 0 then Ret NULL (vunmap a s2)
                            else Ret a (log (Flush_cache_vmap a (a + total_size)) s2))))))"

section \<open>Unmapping\<close>

text \<open>\<^verbatim>\<open>__iounmap\<close>: the walk over \<^verbatim>\<open>vmlist\<close> stops at the first \<^verbatim>\<open>VM_IOREMAP\<close> area that
  starts at the page of \<open>io_addr\<close>.\<close>

definition iounmap :: "config \<Rightarrow> u32 \<Rightarrow> kernel \<Rightarrow> unit outcome" where
  "iounmap cfg io_addr s =
     (let a = PAGE_MASK AND io_addr in
      case (if CONFIG_SMP cfg then Ret () s
            else (case find (\<lambda>tmp. vm_flags tmp AND VM_IOREMAP \<noteq> 0 \<and> vm_addr tmp = a) (vmlist s) of
                    None \<Rightarrow> Ret () s
                  | Some tmp \<Rightarrow>
                      if vm_flags tmp AND VM_ARM_SECTION_MAPPING \<noteq> 0
                      then unmap_area_sections cfg (vm_addr tmp) (vm_size tmp) s
                      else Ret () s)) of
        Fatal f s1 \<Rightarrow> Fatal f s1
      | Ret u s1 \<Rightarrow> Ret () (vunmap a s1))"

section \<open>A concrete machine\<close>

text \<open>
  A uniprocessor ARMv7 build with \<^verbatim>\<open>DOMAIN_IO\<close> 0 and the extended page-table bit set, one
  known memory type, an allocator that answers \<open>0xE0000000\<close>, and an empty kernel with
  two leaf tables left to hand out. The theorems below are exercised on it and on the
  variations that follow.
\<close>

definition up_cfg :: config where
  "up_cfg =
     \<lparr>CONFIG_SMP = False, DOMAIN_IO = 0, cpu_architecture = 9, get_cr = CR_XP,
      cpu_is_xsc3 = False,
      get_mem_type = (\<lambda>m. if m = 0 then Some \<lparr>prot_pte = 0x43, prot_sect = 0x402\<rparr> else None),
      vm_pick = (\<lambda>l sz. Some 0xE0000000),
      pmd_page_vaddr = (\<lambda>e. e AND PAGE_MASK),
      VMALLOC_START = 0xE0000000, VMALLOC_END = 0xF0000000\<rparr>"

definition boot :: kernel where
  "boot =
     \<lparr>mms = (\<lambda>m. \<lparr>pgd_tab = (\<lambda>j. 0), kvm_seq = 0\<rparr>), active_mm = 0,
      ptes = (\<lambda>t i. 0), free_tables = [0x9F000001, 0x9F001001], vmlist = [], trace = []\<rparr>"


text \<open>
  A kernel whose \<^verbatim>\<open>pgd_t\<close> at \<open>0xE0000000\<close> points to a leaf table, the next one being
  empty.
\<close>

definition table_mapped :: kernel where
  "table_mapped =
     boot\<lparr>mms := (\<lambda>m. \<lparr>pgd_tab = (\<lambda>j. if j = 3584 then 0x9F000001 else if j = 3585 then 0x9F000401 else 0),
                          kvm_seq = 0\<rparr>)\<rparr>"

text \<open>
  A kernel with one section-mapped \<^verbatim>\<open>pgd_t\<close> at \<open>0xE0000000\<close>, every address space at
  generation 7 and a process address space active; and the same kernel with the
  generation of \<^verbatim>\<open>init_mm\<close> at its last value before the 32-bit counter wraps.
\<close>

definition section_mapped :: kernel where
  "section_mapped =
     boot\<lparr>mms := (\<lambda>m. if m = INIT_MM
                       then \<lparr>pgd_tab = (\<lambda>j. if j = 3584 then 0x10000402
                                          else if j = 3585 then 0x10100402 else 0),
                             kvm_seq = 7\<rparr>
                       else \<lparr>pgd_tab = (\<lambda>j. 0), kvm_seq = 7\<rparr>),
          active_mm := 1\<rparr>"


text \<open>
  Another writer tearing down the block mapping at \<open>0xE0000000\<close> during a refresh: it
  empties the pair and advances the generation. \<open>late_unmap\<close> does so only while the
  counter has room.
\<close>

definition racing_unmap :: "mm_struct \<Rightarrow> mm_struct" where
  "racing_unmap m = m\<lparr>pgd_tab := (pgd_tab m)(3584 := 0, 3585 := 0), kvm_seq := kvm_seq m + 1\<rparr>"


text \<open>
  A machine short of memory: the allocator has no leaf table left, the \<^verbatim>\<open>pgd_t\<close> at
  \<open>0xE0200000\<close> already has its table, the one at \<open>0xE0000000\<close> has none, and the
  virtual-range allocator answers \<open>0xE01FF000\<close>, the last page below that boundary.
\<close>

definition edge_cfg :: config where
  "edge_cfg = up_cfg\<lparr>vm_pick := (\<lambda>l sz. Some 0xE01FF000)\<rparr>"

definition low_memory :: kernel where
  "low_memory =
     \<lparr>mms = (\<lambda>m. \<lparr>pgd_tab = (\<lambda>j. if j = 3586 then 0x9F001001 else if j = 3587 then 0x9F001401 else 0),
                     kvm_seq = 0\<rparr>),
      active_mm = 0, ptes = (\<lambda>t i. 0), free_tables = [], vmlist = [], trace = []\<rparr>"

definition low_memory_reserved :: kernel where
  "low_memory_reserved =
     log (Printk ''mapping'') (snd (get_vm_area edge_cfg 0x2000 VM_IOREMAP low_memory))"

text \<open>An array whose first element is \<open>v\<close>.\<close>

definition first_only :: "u32 \<Rightarrow> nat \<Rightarrow> u32" where
  "first_only v k = (if k = 0 then v else 0)"

section \<open>Predicates of the statements\<close>


text \<open>Region \<open>k\<close> of a strided request breaks one of the alignment, stride or
  wrap-around rules, the strides being the effective ones.\<close>

definition region_malformed ::
  "(nat \<Rightarrow> u32) \<Rightarrow> (nat \<Rightarrow> u32) \<Rightarrow> (nat \<Rightarrow> u32) option \<Rightarrow> (nat \<Rightarrow> u32) option \<Rightarrow> nat \<Rightarrow> bool" where
  "region_malformed phys_addr phys_size phys_stride virt_stride k =
     (let pstride = stride_or_size phys_stride phys_size k;
          vstride = stride_or_size virt_stride phys_size k
      in pstride < vstride \<or>
         phys_size k mod pstride \<noteq> 0 \<or>
         phys_addr k AND NOT PAGE_MASK \<noteq> 0 \<or>
         phys_size k AND NOT PAGE_MASK \<noteq> 0 \<or>
         pstride AND NOT PAGE_MASK \<noteq> 0 \<or>
         vstride AND NOT PAGE_MASK \<noteq> 0 \<or>
         phys_addr k + phys_size k - 1 < phys_addr k)"




text \<open>
  The first-level table after the teardown of the \<open>n\<close> \<^verbatim>\<open>pgd_t\<close> pairs from \<open>p0\<close>: a pair
  whose first half is not empty has both halves emptied, any other entry is as it
  was.
\<close>

definition cleared_pgd :: "(nat \<Rightarrow> u32) \<Rightarrow> nat \<Rightarrow> nat \<Rightarrow> nat \<Rightarrow> u32" where
  "cleared_pgd tab p0 n j =
     (if p0 \<le> j div 2 \<and> j div 2 < p0 + n \<and> tab (2 * (j div 2)) \<noteq> 0 then 0 else tab j)"

text \<open>
  What the teardown of pair \<open>p\<close> asks of the code outside the file: nothing for an
  empty pair, else the clearing of the entry, followed by the release of the leaf
  table when the entry pointed to one.
\<close>

definition clear_events :: "config \<Rightarrow> (nat \<Rightarrow> u32) \<Rightarrow> nat \<Rightarrow> event list" where
  "clear_events cfg tab p =
     (if tab (2 * p) = 0 then []
      else Pmd_clear (2 * p) #
           (if tab (2 * p) AND PMD_TYPE_MASK = PMD_TYPE_TABLE
            then [Pte_free_kernel (pmd_page_vaddr cfg (tab (2 * p)))] else []))"

text \<open>
  The first-level table after section entries were written over the \<open>n\<close> pairs from
  \<open>p0\<close>: the hardware entry \<open>j\<close> translates to the frame 256 pages (1 MiB) further for
  each entry past the first.
\<close>

definition sections_pgd :: "(nat \<Rightarrow> u32) \<Rightarrow> nat \<Rightarrow> nat \<Rightarrow> u32 \<Rightarrow> u32 \<Rightarrow> nat \<Rightarrow> u32" where
  "sections_pgd tab p0 n pfn prot j =
     (if p0 \<le> j div 2 \<and> j div 2 < p0 + n
      then pfn_to_phys (pfn + 256 * of_nat (j - 2 * p0)) OR prot else tab j)"

text \<open>
  The passes of the loop of \<^verbatim>\<open>__check_kvm_seq\<close>, numbered from 0: pass \<open>k\<close> meets the
  interference \<open>irq_at irqs k\<close> (none once the list is used up), and
  \<open>after_passes cfg irqs mm k s\<close> is the kernel after the first \<open>k\<close> passes from \<open>s\<close>. The
  generation advanced during pass \<open>k\<close> when the value of \<^verbatim>\<open>init_mm.context.kvm_seq\<close> read
  after that pass differs from the one read at its start, which is the one the pass
  stores with the copy.
\<close>

definition irq_at :: "irq list \<Rightarrow> nat \<Rightarrow> irq" where
  "irq_at irqs k = (if k < length irqs then irqs ! k else (id, id))"

fun after_passes :: "config \<Rightarrow> irq list \<Rightarrow> nat \<Rightarrow> nat \<Rightarrow> kernel \<Rightarrow> kernel" where
  "after_passes cfg irqs mm 0 s = s"
| "after_passes cfg irqs mm (Suc k) s =
     kvm_seq_pass cfg (irq_at irqs k) mm (after_passes cfg irqs mm k s)"

definition advanced_mid_copy :: "config \<Rightarrow> irq list \<Rightarrow> nat \<Rightarrow> nat \<Rightarrow> kernel \<Rightarrow> bool" where
  "advanced_mid_copy cfg irqs mm k s =
     (kvm_seq (init_mm (after_passes cfg irqs mm (Suc k) s))
        \<noteq> kvm_seq (init_mm (after_passes cfg irqs mm k s)))"

section \<open>Evaluation on concrete inputs\<close>

text \<open>The equations that run the mappers on a concrete kernel.\<close>

lemmas run_defs = arm_multi_strided_ioremap_def strided_validate.simps strided_outer.simps
  strided_inner.simps strided_step_def select_granularity_def remap_area_pages_def
  remap_pgd_loop.simps remap_area_pmd_def remap_pmd_loop.simps remap_area_pte_def
  remap_pte_loop.simps pte_alloc_kernel_def get_vm_area_def vunmap_def log_def
  set_init_pgd_def init_pgd_def init_mm_def INIT_MM_def stride_or_size_def
  pgd_addr_end_def pmd_addr_end_def pgd_index_def pte_index_def pfn_pte_def
  pfn_to_phys_def phys_to_pfn_def PAGE_ALIGN_def hw_defs Let_def


section \<open>Requests rejected before anything is touched\<close>

text \<open>
  C4: a request of length zero, one whose last byte wraps around the address space,
  or one whose memory type is unknown, answers \<^verbatim>\<open>NULL\<close> and leaves the whole kernel
  state as it was: no area reserved, no table entry written.
\<close>

theorem arm_ioremap_invalid_request:
  assumes "sz = 0 \<or> phys_addr + sz - 1 < phys_addr \<or> get_mem_type cfg mtype = None"
  shows "arm_ioremap cfg phys_addr sz mtype s = Ret NULL s"
  using assms
  by (auto simp: arm_ioremap_def arm_ioremap_caller_def arm_ioremap_pfn_caller_def Let_def)

theorem arm_ioremap_invalid_request_witness:
  "arm_ioremap up_cfg 0x10000000 0 0 boot = Ret NULL boot \<and>
   arm_ioremap up_cfg 0xFFFFF000 0x2000 0 boot = Ret NULL boot \<and>
   arm_ioremap up_cfg 0x10000000 0x1000 7 boot = Ret NULL boot"
  using arm_ioremap_invalid_request [of 0 "0x10000000" up_cfg 0 boot]
    arm_ioremap_invalid_request [of "0x2000" "0xFFFFF000" up_cfg 0 boot]
    arm_ioremap_invalid_request [of "0x1000" "0x10000000" up_cfg 7 boot]
  by (simp add: up_cfg_def)

lemma phys_to_pfn_bound: "phys_to_pfn paddr < 0x100000"
proof -
  have "unat paddr < 1048576 * 4096"
    using unsigned_less [of paddr, where 'a = nat] by simp
  then have "unat paddr div 4096 < 1048576"
    by (rule less_mult_imp_div_less)
  then show ?thesis
    by (simp add: phys_to_pfn_def PAGE_SHIFT_def word_less_nat_alt unat_drop_bit_eq
        drop_bit_eq_div unat_div)
qed

text \<open>
  C10: a frame number of \<open>0x100000\<close> or more whose address is not aligned to 16 MiB is
  refused by \<^verbatim>\<open>__arm_ioremap_pfn\<close> with the state untouched, whatever the configuration
  (multiprocessor builds included). The frame number of a 32-bit physical address is
  always below \<open>0x100000\<close>, so \<^verbatim>\<open>__arm_ioremap\<close> and the regions of
  \<^verbatim>\<open>__arm_multi_strided_ioremap\<close>, which start from such an address, never meet the case.
\<close>

theorem high_mapping_alignment:
  "(0x100000 \<le> pfn \<and> pfn_to_phys pfn AND NOT SUPERSECTION_MASK \<noteq> 0 \<longrightarrow>
      arm_ioremap_pfn cfg pfn offset sz mtype s = Ret NULL s) \<and>
   phys_to_pfn paddr < 0x100000"
  by (simp add: arm_ioremap_pfn_def arm_ioremap_pfn_caller_def phys_to_pfn_bound)

theorem high_mapping_alignment_witness:
  "arm_ioremap_pfn (up_cfg\<lparr>CONFIG_SMP := True\<rparr>) 0x100001 0 0x1000 0 boot = Ret NULL boot"
  using high_mapping_alignment [of "0x100001" "up_cfg\<lparr>CONFIG_SMP := True\<rparr>" 0 "0x1000" 0 boot]
  by (simp add: pfn_to_phys_def hw_defs)

section \<open>The page-table populator and occupied slots\<close>




lemma ptes_log [simp]: "ptes (log ev s) = ptes s"
  by (simp add: log_def)

lemma ptes_set_init_pgd [simp]: "ptes (set_init_pgd i v s) = ptes s"
  by (simp add: set_init_pgd_def)
















section \<open>Validation of strided requests\<close>

lemma or_and_nonzero:
  "((w OR x OR y OR z) AND m \<noteq> 0) = (w AND m \<noteq> 0 \<or> x AND m \<noteq> 0 \<or> y AND m \<noteq> 0 \<or> z AND m \<noteq> 0)"
  for w :: u32
  by (simp add: bit.conj_disj_distrib2 or_eq_0_iff)

lemma stride_or_size_zero: "stride_or_size st phys_size k = 0 \<Longrightarrow> phys_size k = 0"
  by (simp add: stride_or_size_def split: option.splits if_splits)

lemma strided_validate_step:
  assumes "i < sections"
    and "\<And>total' pfns'.
      strided_validate sections phys_addr phys_size phys_stride virt_stride (i + 1) total' pfns' = None"
  shows "strided_validate sections phys_addr phys_size phys_stride virt_stride i total_size pfns = None"
  by (subst strided_validate.simps) (simp add: assms Let_def)

lemma strided_validate_at_malformed:
  "0 \<le> i \<Longrightarrow> i < sections \<Longrightarrow>
   region_malformed phys_addr phys_size phys_stride virt_stride (nat i) \<Longrightarrow>
   strided_validate sections phys_addr phys_size phys_stride virt_stride i total_size pfns = None"
  by (subst strided_validate.simps)
     (auto simp: region_malformed_def Let_def or_and_nonzero dest: stride_or_size_zero)

lemma strided_validate_rejects:
  "n = k - nat i \<Longrightarrow> 0 \<le> i \<Longrightarrow> i \<le> int k \<Longrightarrow> int k < sections \<Longrightarrow>
   region_malformed phys_addr phys_size phys_stride virt_stride k \<Longrightarrow>
   strided_validate sections phys_addr phys_size phys_stride virt_stride i total_size pfns = None"
proof (induction n arbitrary: i total_size pfns)
  case 0
  then have "nat i = k" by simp
  with 0 show ?case by (simp add: strided_validate_at_malformed)
next
  case (Suc n)
  then have lt: "i < sections" and n: "n = k - nat (i + 1)" and le: "i + 1 \<le> int k"
    by simp_all
  from Suc.IH [OF n _ le Suc.prems(4,5)] Suc.prems(2)
  have next_none: "strided_validate sections phys_addr phys_size phys_stride virt_stride (i + 1)
      total' pfns' = None" for total' pfns'
    by simp
  show ?case by (rule strided_validate_step [OF lt next_none])
qed

lemma strided_malformed_region_rejected:
  assumes "int k < sections"
    and "region_malformed phys_addr phys_size phys_stride virt_stride k"
  shows "arm_multi_strided_ioremap cfg sections phys_addr phys_size phys_stride virt_stride mtype s
           = Ret NULL s"
  using strided_validate_rejects [OF refl _ _ assms, of 0 0 "\<lambda>k. 0"]
  by (simp add: arm_multi_strided_ioremap_def)

text \<open>
  C2 at a failing input. One region of size \<open>0x2000\<close> with a virtual stride of
  \<open>0x1000\<close> and no physical stride array: the physical stride defaults to the size,
  the test \<^verbatim>\<open>!pstride ^ !vstride\<close> sees two non-zero strides, and the request is mapped
  instead of refused.
\<close>

theorem strided_one_stride_accepted:
  "(case arm_multi_strided_ioremap up_cfg 1 (first_only 0x40000000) (first_only 0x2000)
           None (Some (first_only 0x1000)) 0 boot of
      Ret r s \<Rightarrow>
        r = 0xE0000000 \<and> ptes s 0x9F000000 0 = 0x40000043 \<and>
        vmlist s = [\<lparr>vm_addr = 0xE0000000, vm_size = 0x2000, vm_flags = 1\<rparr>]
    | Fatal f s \<Rightarrow> False)"
  by (simp add: run_defs up_cfg_def boot_def first_only_def)

section \<open>Failure of a mapper after the reservation\<close>

lemma arm_ioremap_pfn_caller_release:
  assumes "\<not> (0x100000 \<le> pfn \<and> pfn_to_phys pfn AND NOT SUPERSECTION_MASK \<noteq> 0)"
    and "get_mem_type cfg mtype = Some type"
    and "get_vm_area cfg (PAGE_ALIGN (offset + sz)) VM_IOREMAP s = (Some a, s1)"
    and "select_granularity cfg pfn (PAGE_ALIGN (offset + sz)) a = Pages"
    and "remap_area_pages cfg a pfn (PAGE_ALIGN (offset + sz)) type s1 = Ret err s2"
    and "err \<noteq> 0"
  shows "arm_ioremap_pfn_caller cfg pfn offset sz mtype s = Ret NULL (vunmap a s2)"
  using assms by (auto simp: arm_ioremap_pfn_caller_def Let_def)

lemma arm_ioremap_release_example:
  "(case arm_ioremap up_cfg 0x10000000 0x2000 0 (boot\<lparr>free_tables := []\<rparr>) of
      Ret r s \<Rightarrow> r = NULL \<and> vmlist s = [] \<and> trace s = [Vunmap 0xE0000000]
    | Fatal f s \<Rightarrow> False)"
  by (simp add: arm_ioremap_def arm_ioremap_caller_def arm_ioremap_pfn_caller_def run_defs
      up_cfg_def boot_def)

text \<open>
  C5 at a failing input. Two steps of one page each. The first, at \<open>0xE01FF000\<close>,
  needs a leaf table, gets none and answers \<^verbatim>\<open>-ENOMEM\<close>; the inner loop goes on, the
  second step, at \<open>0xE0200000\<close>, finds its table and answers 0, which overwrites
  \<^verbatim>\<open>err\<close>. The call returns the area instead of releasing it: the first-level entry
  of the first page is still empty and the area is still on the list.
\<close>

theorem strided_step_error_lost:
  "strided_step edge_cfg 0xE01FF000 \<lparr>prot_pte = 0x43, prot_sect = 0x402\<rparr> 0x2000 0x1000
       0x40000 0xE01FF000 low_memory_reserved = Ret (- ENOMEM) low_memory_reserved \<and>
   (case arm_multi_strided_ioremap edge_cfg 1 (first_only 0x40000000) (first_only 0x2000)
           (Some (first_only 0x1000)) (Some (first_only 0x1000)) 0 low_memory of
      Ret r s \<Rightarrow>
        r = 0xE01FF000 \<and> init_pgd s 3584 = 0 \<and> ptes s 0x9F001000 0 = 0x40001043 \<and>
        vmlist s = [\<lparr>vm_addr = 0xE01FF000, vm_size = 0x3000, vm_flags = 1\<rparr>]
    | Fatal f s \<Rightarrow> False)"
  by (simp add: run_defs edge_cfg_def up_cfg_def low_memory_def low_memory_reserved_def
      first_only_def)

section \<open>The refresh of an address space\<close>

lemma kvm_seq_pass_recorded:
  "kvm_seq (init_mm (kvm_seq_pass cfg i mm s)) = kvm_seq (init_mm s) \<Longrightarrow>
   kvm_seq (mms (kvm_seq_pass cfg i mm s) mm) = kvm_seq (init_mm (kvm_seq_pass cfg i mm s))"
  by (cases "mm = INIT_MM")
     (auto simp: kvm_seq_pass_def interfere_def memcpy_kernel_pgd_def set_kvm_seq_def
        init_mm_def Let_def)

lemma check_kvm_seq_last_pass:
  "\<exists>i s0. check_kvm_seq cfg irqs mm s = kvm_seq_pass cfg i mm s0 \<and>
          kvm_seq (init_mm (kvm_seq_pass cfg i mm s0)) = kvm_seq (init_mm s0)"
proof (induction cfg irqs mm s rule: check_kvm_seq.induct)
  case (1 cfg irqs mm s)
  let ?i = "case irqs of [] \<Rightarrow> (id, id) | i # x \<Rightarrow> i"
  let ?s' = "kvm_seq_pass cfg ?i mm s"
  show ?case
  proof (cases "kvm_seq (init_mm s) \<noteq> kvm_seq (init_mm ?s')")
    case True
    with "1.IH" [OF refl refl True] show ?thesis
      by (subst check_kvm_seq.simps) (simp add: Let_def)
  next
    case False
    then have "check_kvm_seq cfg irqs mm s = ?s'"
      by (subst check_kvm_seq.simps) (simp add: Let_def)
    with False show ?thesis
      by (intro exI [of _ ?i] exI [of _ s]) simp
  qed
qed

lemma check_kvm_seq_recorded:
  "kvm_seq (mms (check_kvm_seq cfg irqs mm s) mm) = kvm_seq (init_mm (check_kvm_seq cfg irqs mm s))"
proof -
  from check_kvm_seq_last_pass [of cfg irqs mm s] obtain i s0 where
    "check_kvm_seq cfg irqs mm s = kvm_seq_pass cfg i mm s0"
    "kvm_seq (init_mm (kvm_seq_pass cfg i mm s0)) = kvm_seq (init_mm s0)"
    by blast
  then show ?thesis by (simp add: kvm_seq_pass_recorded)
qed

lemma kvm_seq_pass_quiet_init:
  "kvm_seq (init_mm (kvm_seq_pass cfg (id, id) mm s)) = kvm_seq (init_mm s)"
  by (auto simp: kvm_seq_pass_def interfere_def memcpy_kernel_pgd_def set_kvm_seq_def
        init_mm_def Let_def)

lemma check_kvm_seq_quiet:
  "check_kvm_seq cfg [] mm s = kvm_seq_pass cfg (id, id) mm s"
  by (subst check_kvm_seq.simps) (simp add: Let_def kvm_seq_pass_quiet_init)

lemma kvm_seq_pass_quiet_slice:
  "in_kernel_slice cfg j \<Longrightarrow> pgd_tab (mms (kvm_seq_pass cfg (id, id) mm s) mm) j = init_pgd s j"
  by (auto simp: kvm_seq_pass_def interfere_def memcpy_kernel_pgd_def set_kvm_seq_def
        init_mm_def init_pgd_def Let_def)

lemma kvm_seq_pass_slice:
  "mm \<noteq> INIT_MM \<Longrightarrow> in_kernel_slice cfg j \<Longrightarrow>
   pgd_tab (mms (kvm_seq_pass cfg i mm s) mm) j = pgd_tab (fst i (init_mm s)) j"
  by (simp add: kvm_seq_pass_def interfere_def memcpy_kernel_pgd_def set_kvm_seq_def
        init_mm_def init_pgd_def Let_def)

lemma irq_at_0: "irq_at irqs 0 = (case irqs of [] \<Rightarrow> (id, id) | i # x \<Rightarrow> i)"
  by (simp add: irq_at_def split: list.splits)

lemma irq_at_tl: "irq_at (tl irqs) k = irq_at irqs (Suc k)"
  by (cases irqs) (simp_all add: irq_at_def)

lemma after_passes_shift:
  "after_passes cfg irqs mm (Suc k) s
     = after_passes cfg (tl irqs) mm k (kvm_seq_pass cfg (irq_at irqs 0) mm s)"
proof (induction k)
  case 0
  show ?case by simp
next
  case (Suc k)
  have "after_passes cfg irqs mm (Suc (Suc k)) s
      = kvm_seq_pass cfg (irq_at irqs (Suc k)) mm (after_passes cfg irqs mm (Suc k) s)"
    by (rule after_passes.simps(2))
  also have "\<dots> = kvm_seq_pass cfg (irq_at (tl irqs) k) mm
      (after_passes cfg (tl irqs) mm k (kvm_seq_pass cfg (irq_at irqs 0) mm s))"
    by (simp only: Suc.IH irq_at_tl)
  also have "\<dots> = after_passes cfg (tl irqs) mm (Suc k) (kvm_seq_pass cfg (irq_at irqs 0) mm s)"
    by (rule after_passes.simps(2) [symmetric])
  finally show ?case .
qed

lemma advanced_mid_copy_shift:
  "advanced_mid_copy cfg irqs mm (Suc k) s
     = advanced_mid_copy cfg (tl irqs) mm k (kvm_seq_pass cfg (irq_at irqs 0) mm s)"
  unfolding advanced_mid_copy_def
    after_passes_shift [of cfg irqs mm "Suc k" s] after_passes_shift [of cfg irqs mm k s]
  by (rule refl)

lemma advanced_mid_copy_0:
  "advanced_mid_copy cfg irqs mm 0 s
     = (kvm_seq (init_mm (kvm_seq_pass cfg (irq_at irqs 0) mm s)) \<noteq> kvm_seq (init_mm s))"
  by (simp add: advanced_mid_copy_def)

lemma check_kvm_seq_least_stable:
  "\<exists>k\<le>length irqs.
     (\<forall>k'<k. advanced_mid_copy cfg irqs mm k' s) \<and>
     \<not> advanced_mid_copy cfg irqs mm k s \<and>
     check_kvm_seq cfg irqs mm s = after_passes cfg irqs mm (Suc k) s"
proof (induction cfg irqs mm s rule: check_kvm_seq.induct)
  case (1 cfg irqs mm s)
  let ?i = "case irqs of [] \<Rightarrow> (id, id) | i # x \<Rightarrow> i"
  let ?s' = "kvm_seq_pass cfg ?i mm s"
  have i: "irq_at irqs 0 = ?i"
    by (rule irq_at_0)
  show ?case
  proof (cases "kvm_seq (init_mm s) \<noteq> kvm_seq (init_mm ?s')")
    case True
    have ne: "irqs \<noteq> []"
    proof
      assume "irqs = []"
      with True show False
        by (simp add: kvm_seq_pass_quiet_init)
    qed
    from "1.IH" [OF refl refl True] obtain k where
      k: "k \<le> length (tl irqs)"
         "\<forall>k'<k. advanced_mid_copy cfg (tl irqs) mm k' ?s'"
         "\<not> advanced_mid_copy cfg (tl irqs) mm k ?s'"
         "check_kvm_seq cfg (tl irqs) mm ?s' = after_passes cfg (tl irqs) mm (Suc k) ?s'"
      by blast
    from True have first: "advanced_mid_copy cfg irqs mm 0 s"
      by (simp add: advanced_mid_copy_0 i)
    have bound: "Suc k \<le> length irqs"
      using k(1) ne by (cases irqs) simp_all
    have earlier: "\<forall>k'<Suc k. advanced_mid_copy cfg irqs mm k' s"
    proof (intro allI impI)
      fix k'
      assume lt: "k' < Suc k"
      show "advanced_mid_copy cfg irqs mm k' s"
      proof (cases k')
        case 0
        with first show ?thesis by simp
      next
        case (Suc m)
        with lt have "m < k" by simp
        with k(2) have "advanced_mid_copy cfg (tl irqs) mm m ?s'" by blast
        with Suc show ?thesis
          by (simp only: advanced_mid_copy_shift i)
      qed
    qed
    have "advanced_mid_copy cfg irqs mm (Suc k) s = advanced_mid_copy cfg (tl irqs) mm k ?s'"
      by (simp only: advanced_mid_copy_shift i)
    with k(3) have last: "\<not> advanced_mid_copy cfg irqs mm (Suc k) s"
      by blast
    from True have "check_kvm_seq cfg irqs mm s = check_kvm_seq cfg (tl irqs) mm ?s'"
      by (subst check_kvm_seq.simps) (simp add: Let_def)
    also have "\<dots> = after_passes cfg (tl irqs) mm (Suc k) ?s'"
      by (rule k(4))
    also have "\<dots> = after_passes cfg irqs mm (Suc (Suc k)) s"
      by (simp only: after_passes_shift [of cfg irqs mm "Suc k" s] i)
    finally have "check_kvm_seq cfg irqs mm s = after_passes cfg irqs mm (Suc (Suc k)) s" .
    with bound earlier last show ?thesis
      by blast
  next
    case False
    then have "check_kvm_seq cfg irqs mm s = ?s'"
      by (subst check_kvm_seq.simps) (simp add: Let_def)
    then have "check_kvm_seq cfg irqs mm s = after_passes cfg irqs mm (Suc 0) s"
      by (simp add: i)
    moreover from False have "\<not> advanced_mid_copy cfg irqs mm 0 s"
      by (simp add: advanced_mid_copy_0 i)
    ultimately show ?thesis
      by (intro exI [of _ 0]) simp
  qed
qed

text \<open>
  C9: \<^verbatim>\<open>__check_kvm_seq\<close> returns, whatever the (finite) interference, and loops until
  stable: there is a pass \<open>k\<close> of the loop, met before the interference is used up or
  right after it, such that the generation of \<^verbatim>\<open>init_mm\<close> advanced during every pass
  before \<open>k\<close> and did not advance during pass \<open>k\<close>, and the call returns the kernel as
  pass \<open>k\<close> left it, neither earlier nor later. In that kernel the generation recorded
  for the address space is the one pass \<open>k\<close> read before its copy, and it equals the
  generation of \<^verbatim>\<open>init_mm\<close> read after that copy, at return; the slice of the address
  space is the slice \<^verbatim>\<open>init_mm\<close> had when pass \<open>k\<close> copied it. Without interference the
  slice of the address space is the slice of \<^verbatim>\<open>init_mm\<close> at the call.
\<close>

theorem check_kvm_seq_stable:
  "(\<exists>k\<le>length irqs.
      (\<forall>k'<k. advanced_mid_copy cfg irqs mm k' s) \<and>
      \<not> advanced_mid_copy cfg irqs mm k s \<and>
      check_kvm_seq cfg irqs mm s
        = kvm_seq_pass cfg (irq_at irqs k) mm (after_passes cfg irqs mm k s) \<and>
      kvm_seq (mms (check_kvm_seq cfg irqs mm s) mm)
        = kvm_seq (init_mm (after_passes cfg irqs mm k s)) \<and>
      (\<forall>j. mm \<noteq> INIT_MM \<and> in_kernel_slice cfg j \<longrightarrow>
         pgd_tab (mms (check_kvm_seq cfg irqs mm s) mm) j
           = pgd_tab (fst (irq_at irqs k) (init_mm (after_passes cfg irqs mm k s))) j)) \<and>
   kvm_seq (mms (check_kvm_seq cfg irqs mm s) mm) = kvm_seq (init_mm (check_kvm_seq cfg irqs mm s)) \<and>
   (\<forall>j. in_kernel_slice cfg j \<longrightarrow> pgd_tab (mms (check_kvm_seq cfg [] mm s) mm) j = init_pgd s j)"
proof (intro conjI allI impI)
  from check_kvm_seq_least_stable [of irqs cfg mm s] obtain k where
    k: "k \<le> length irqs"
       "\<forall>k'<k. advanced_mid_copy cfg irqs mm k' s"
       "\<not> advanced_mid_copy cfg irqs mm k s"
       "check_kvm_seq cfg irqs mm s = after_passes cfg irqs mm (Suc k) s"
    by blast
  let ?s0 = "after_passes cfg irqs mm k s"
  let ?i = "irq_at irqs k"
  from k(4) have res: "check_kvm_seq cfg irqs mm s = kvm_seq_pass cfg ?i mm ?s0"
    by simp
  from k(3) have stable: "kvm_seq (init_mm (kvm_seq_pass cfg ?i mm ?s0)) = kvm_seq (init_mm ?s0)"
    by (simp add: advanced_mid_copy_def)
  then have "kvm_seq (mms (kvm_seq_pass cfg ?i mm ?s0) mm)
      = kvm_seq (init_mm (kvm_seq_pass cfg ?i mm ?s0))"
    by (rule kvm_seq_pass_recorded)
  with stable res have rec: "kvm_seq (mms (check_kvm_seq cfg irqs mm s) mm) = kvm_seq (init_mm ?s0)"
    by simp
  from res have slice: "\<forall>j. mm \<noteq> INIT_MM \<and> in_kernel_slice cfg j \<longrightarrow>
      pgd_tab (mms (check_kvm_seq cfg irqs mm s) mm) j = pgd_tab (fst ?i (init_mm ?s0)) j"
    by (simp add: kvm_seq_pass_slice)
  from k(1) k(2) k(3) res rec slice
  show "\<exists>k\<le>length irqs.
      (\<forall>k'<k. advanced_mid_copy cfg irqs mm k' s) \<and>
      \<not> advanced_mid_copy cfg irqs mm k s \<and>
      check_kvm_seq cfg irqs mm s
        = kvm_seq_pass cfg (irq_at irqs k) mm (after_passes cfg irqs mm k s) \<and>
      kvm_seq (mms (check_kvm_seq cfg irqs mm s) mm)
        = kvm_seq (init_mm (after_passes cfg irqs mm k s)) \<and>
      (\<forall>j. mm \<noteq> INIT_MM \<and> in_kernel_slice cfg j \<longrightarrow>
         pgd_tab (mms (check_kvm_seq cfg irqs mm s) mm) j
           = pgd_tab (fst (irq_at irqs k) (init_mm (after_passes cfg irqs mm k s))) j)"
    by blast
next
  show "kvm_seq (mms (check_kvm_seq cfg irqs mm s) mm)
      = kvm_seq (init_mm (check_kvm_seq cfg irqs mm s))"
    by (rule check_kvm_seq_recorded)
next
  fix j
  assume "in_kernel_slice cfg j"
  then show "pgd_tab (mms (check_kvm_seq cfg [] mm s) mm) j = init_pgd s j"
    by (simp add: check_kvm_seq_quiet kvm_seq_pass_quiet_slice)
qed

theorem check_kvm_seq_stable_witness:
  "advanced_mid_copy up_cfg [(id, racing_unmap)] 1 0 section_mapped \<and>
   \<not> advanced_mid_copy up_cfg [(id, racing_unmap)] 1 (Suc 0) section_mapped \<and>
   check_kvm_seq up_cfg [(id, racing_unmap)] 1 section_mapped
     = after_passes up_cfg [(id, racing_unmap)] 1 (Suc (Suc 0)) section_mapped \<and>
   pgd_tab (mms (after_passes up_cfg [(id, racing_unmap)] 1 (Suc 0) section_mapped) 1) 3584
     = 0x10000402 \<and>
   kvm_seq (mms (after_passes up_cfg [(id, racing_unmap)] 1 (Suc 0) section_mapped) 1) = 7 \<and>
   kvm_seq (init_mm (after_passes up_cfg [(id, racing_unmap)] 1 (Suc 0) section_mapped)) = 8 \<and>
   kvm_seq (mms (check_kvm_seq up_cfg [(id, racing_unmap)] 1 section_mapped) 1) = 8 \<and>
   kvm_seq (init_mm (check_kvm_seq up_cfg [(id, racing_unmap)] 1 section_mapped)) = 8 \<and>
   pgd_tab (mms (check_kvm_seq up_cfg [(id, racing_unmap)] 1 section_mapped) 1) 3584 = 0 \<and>
   pgd_tab (mms (check_kvm_seq up_cfg [] 1 section_mapped) 1) 3584 = 0x10000402"
  using check_kvm_seq_stable [of "[(id, racing_unmap)]" up_cfg 1 section_mapped]
  by (simp add: check_kvm_seq.simps advanced_mid_copy_def irq_at_def kvm_seq_pass_def
      interfere_def memcpy_kernel_pgd_def
      set_kvm_seq_def in_kernel_slice_def init_mm_def init_pgd_def INIT_MM_def Let_def
      racing_unmap_def section_mapped_def boot_def up_cfg_def pgd_index_def hw_defs)


section \<open>The generation counter\<close>




lemma init_mm_log [simp]: "init_mm (log ev s) = init_mm s"
  by (simp add: log_def init_mm_def)





lemma trace_kvm_seq_pass [simp]: "trace (kvm_seq_pass cfg i mm s) = trace s"
  by (simp add: kvm_seq_pass_def interfere_def memcpy_kernel_pgd_def set_kvm_seq_def Let_def)












section \<open>Teardown and installation of block mappings\<close>

lemma unmap_pgd_entry_pgd:
  "init_pgd (unmap_pgd_entry cfg p s) = cleared_pgd (init_pgd s) p (Suc 0)"
proof (rule ext)
  fix j
  have "j div 2 = p \<longleftrightarrow> j = 2 * p \<or> j = Suc (2 * p)" by presburger
  then show "init_pgd (unmap_pgd_entry cfg p s) j = cleared_pgd (init_pgd s) p (Suc 0) j"
    by (auto simp: unmap_pgd_entry_def cleared_pgd_def Let_def bump_kvm_seq_def pmd_clear_def
        set_kvm_seq_def set_init_pgd_def log_def init_pgd_def init_mm_def)
qed

lemma unmap_pgd_entry_trace:
  "trace (unmap_pgd_entry cfg p s) = trace s @ clear_events cfg (init_pgd s) p"
  by (simp add: unmap_pgd_entry_def clear_events_def Let_def bump_kvm_seq_def pmd_clear_def
        set_kvm_seq_def set_init_pgd_def log_def init_pgd_def init_mm_def)

lemma cleared_pgd_Suc:
  "cleared_pgd (cleared_pgd tab p (Suc 0)) (Suc p) n = cleared_pgd tab p (Suc n)"
  by (rule ext) (auto simp: cleared_pgd_def)

lemma clear_events_later:
  "p < q \<Longrightarrow> clear_events cfg (cleared_pgd tab p (Suc 0)) q = clear_events cfg tab q"
  by (simp add: clear_events_def cleared_pgd_def)

lemma clear_events_concat_later:
  "\<forall>q\<in>set qs. p < q \<Longrightarrow>
   concat (map (clear_events cfg (cleared_pgd tab p (Suc 0))) qs)
     = concat (map (clear_events cfg tab) qs)"
  by (induction qs) (simp_all add: clear_events_later)

lemma upt_first: "[p..<p + Suc n] = p # [p + 1..<p + 1 + n]"
  by (simp add: upt_conv_Cons del: upt_Suc)

lemma unat_add_pgdir:
  assumes "unat a + 2097152 \<le> unat (e :: u32)"
  shows "unat (a + PGDIR_SIZE) = unat a + 2097152"
proof -
  have "unat e < 2 ^ 32" using unsigned_less [of e, where 'a = nat] by simp
  with assms show ?thesis by (simp add: PGDIR_SIZE_def unat_word_ariths)
qed

lemma unmap_sections_loop_aligned:
  "unat a + n * 2097152 = unat end_addr \<Longrightarrow> 0 < n \<Longrightarrow> pgd + n \<le> PTRS_PER_PGD \<Longrightarrow>
   \<exists>s'. unmap_sections_loop cfg pgd a end_addr s = Ret () s' \<and>
        init_pgd s' = cleared_pgd (init_pgd s) pgd n \<and>
        trace s' = trace s @ concat (map (clear_events cfg (init_pgd s)) [pgd..<pgd + n])"
proof (induction n arbitrary: pgd a s)
  case 0
  then show ?case by simp
next
  case (Suc n)
  let ?s1 = "unmap_pgd_entry cfg pgd s"
  from Suc.prems have pgd: "\<not> PTRS_PER_PGD \<le> pgd" by simp
  from Suc.prems have a': "unat (a + PGDIR_SIZE) = unat a + 2097152"
    by (intro unat_add_pgdir [of a end_addr]) simp
  show ?case
  proof (cases "n = 0")
    case True
    with Suc.prems a' have "\<not> a + PGDIR_SIZE < end_addr"
      by (simp add: word_less_nat_alt)
    with pgd have "unmap_sections_loop cfg pgd a end_addr s = Ret () ?s1"
      by (subst unmap_sections_loop.simps) (simp add: Let_def)
    with True show ?thesis
      by (simp add: unmap_pgd_entry_pgd unmap_pgd_entry_trace)
  next
    case False
    with Suc.prems a' have lt: "a + PGDIR_SIZE < end_addr"
      by (simp add: word_less_nat_alt)
    from Suc.prems a' have 1: "unat (a + PGDIR_SIZE) + n * 2097152 = unat end_addr" by simp
    from False have 2: "0 < n" by simp
    from Suc.prems have 3: "pgd + 1 + n \<le> PTRS_PER_PGD" by simp
    from Suc.IH [OF 1 2 3, of ?s1] obtain s' where
      s': "unmap_sections_loop cfg (pgd + 1) (a + PGDIR_SIZE) end_addr ?s1 = Ret () s'"
        "init_pgd s' = cleared_pgd (init_pgd ?s1) (pgd + 1) n"
        "trace s' = trace ?s1 @ concat (map (clear_events cfg (init_pgd ?s1)) [pgd + 1..<pgd + 1 + n])"
      by blast
    from pgd lt s'(1) have "unmap_sections_loop cfg pgd a end_addr s = Ret () s'"
      by (subst unmap_sections_loop.simps) (simp add: Let_def)
    moreover from s'(2) have "init_pgd s' = cleared_pgd (init_pgd s) pgd (Suc n)"
      by (simp add: unmap_pgd_entry_pgd cleared_pgd_Suc)
    moreover have "concat (map (clear_events cfg (init_pgd ?s1)) [pgd + 1..<pgd + 1 + n])
        = concat (map (clear_events cfg (init_pgd s)) [pgd + 1..<pgd + 1 + n])"
      unfolding unmap_pgd_entry_pgd by (rule clear_events_concat_later) auto
    with s'(3) have
      "trace s' = trace s @ concat (map (clear_events cfg (init_pgd s)) [pgd..<pgd + Suc n])"
      by (simp only: upt_first unmap_pgd_entry_trace list.map concat.simps append_assoc)
    ultimately show ?thesis by blast
  qed
qed

lemma pgd_index_bound:
  assumes "unat a + n * 2097152 = unat (e :: u32)"
  shows "pgd_index a + n \<le> PTRS_PER_PGD"
proof -
  have "unat e < 2048 * 2097152" using unsigned_less [of e, where 'a = nat] by simp
  with assms have "unat a + n * 2097152 < 2048 * 2097152" by simp
  then have "(unat a + n * 2097152) div 2097152 < 2048"
    by (rule less_mult_imp_div_less)
  then have "unat a div 2097152 + n < 2048" by simp
  then show ?thesis
    by (simp add: pgd_index_def PGDIR_SHIFT_def PTRS_PER_PGD_def unat_drop_bit_eq
        drop_bit_eq_div unat_div)
qed

lemma kvm_seq_pass_quiet_init_mm: "init_mm (kvm_seq_pass cfg (id, id) mm s) = init_mm s"
proof (cases "mm = INIT_MM")
  case True
  have "(\<lambda>j. if in_kernel_slice cfg j then init_pgd s j else pgd_tab (mms s INIT_MM) j)
      = pgd_tab (mms s INIT_MM)"
    by (rule ext) (simp add: init_pgd_def init_mm_def)
  with True show ?thesis
    by (simp add: kvm_seq_pass_def interfere_def memcpy_kernel_pgd_def set_kvm_seq_def
        init_mm_def Let_def)
next
  case False
  then show ?thesis
    by (simp add: kvm_seq_pass_def interfere_def memcpy_kernel_pgd_def set_kvm_seq_def
        init_mm_def Let_def)
qed

lemma check_kvm_seq_quiet_frame:
  "init_pgd (check_kvm_seq cfg [] mm s) = init_pgd s"
  "trace (check_kvm_seq cfg [] mm s) = trace s"
  by (simp_all add: check_kvm_seq_quiet kvm_seq_pass_quiet_init_mm init_pgd_def)

lemma init_pgd_log [simp]: "init_pgd (log ev s) = init_pgd s"
  by (simp add: init_pgd_def)

lemma trace_log [simp]: "trace (log ev s) = trace s @ [ev]"
  by (simp add: log_def)

lemma unmap_area_sections_aligned:
  assumes "unat virt + n * 2097152 = unat (virt + (sz AND NOT (SZ_1M - 1)))" and "0 < n"
  shows "\<exists>s'. unmap_area_sections cfg virt sz s = Ret () s' \<and>
      init_pgd s' = cleared_pgd (init_pgd s) (pgd_index virt) n \<and>
      trace s' = trace s @ Flush_cache_vunmap virt (virt + (sz AND NOT (SZ_1M - 1))) #
        concat (map (clear_events cfg (init_pgd s)) [pgd_index virt..<pgd_index virt + n]) @
        [Flush_tlb_kernel_range virt (virt + (sz AND NOT (SZ_1M - 1)))]"
proof -
  let ?e = "virt + (sz AND NOT (SZ_1M - 1))"
  let ?s0 = "log (Flush_cache_vunmap virt ?e) s"
  from unmap_sections_loop_aligned [OF assms pgd_index_bound [OF assms(1)], of cfg ?s0]
  obtain s1 where s1: "unmap_sections_loop cfg (pgd_index virt) virt ?e ?s0 = Ret () s1"
    "init_pgd s1 = cleared_pgd (init_pgd ?s0) (pgd_index virt) n"
    "trace s1 = trace ?s0 @ concat (map (clear_events cfg (init_pgd ?s0))
        [pgd_index virt..<pgd_index virt + n])"
    by blast
  let ?s2 = "if kvm_seq (mms s1 (active_mm s1)) \<noteq> kvm_seq (init_mm s1)
             then check_kvm_seq cfg [] (active_mm s1) s1 else s1"
  have s2: "init_pgd ?s2 = init_pgd s1" "trace ?s2 = trace s1"
    by (simp_all add: check_kvm_seq_quiet_frame)
  from s1(1) have "unmap_area_sections cfg virt sz s = Ret () (log (Flush_tlb_kernel_range virt ?e) ?s2)"
    by (simp add: unmap_area_sections_def Let_def)
  moreover from s1 s2 have
    "init_pgd (log (Flush_tlb_kernel_range virt ?e) ?s2) = cleared_pgd (init_pgd s) (pgd_index virt) n"
    by (simp only: init_pgd_log)
  moreover from s1 s2 have
    "trace (log (Flush_tlb_kernel_range virt ?e) ?s2) = trace s @ Flush_cache_vunmap virt ?e #
        concat (map (clear_events cfg (init_pgd s)) [pgd_index virt..<pgd_index virt + n]) @
        [Flush_tlb_kernel_range virt ?e]"
    by (simp only: trace_log init_pgd_log) simp
  ultimately show ?thesis by blast
qed

lemma remap_pgd_sections_fst: "fst (remap_pgd_sections p pfn type s) = pfn + 512"
  by (simp add: remap_pgd_sections_def Let_def PAGE_SHIFT_def SZ_1M_def)

lemma remap_pgd_sections_trace:
  "trace (snd (remap_pgd_sections p pfn type s)) = trace s @ [Flush_pmd_entry (2 * p)]"
  by (simp add: remap_pgd_sections_def Let_def set_init_pgd_def)

lemma remap_pgd_sections_pgd:
  "init_pgd (snd (remap_pgd_sections p pfn type s))
     = sections_pgd (init_pgd s) p (Suc 0) pfn (prot_sect type)"
proof (rule ext)
  fix j
  have "j = 2 * p \<or> j = Suc (2 * p) \<or> j div 2 \<noteq> p" by presburger
  then consider "j = 2 * p" | "j = Suc (2 * p)" | "j div 2 \<noteq> p" by blast
  then show "init_pgd (snd (remap_pgd_sections p pfn type s)) j
      = sections_pgd (init_pgd s) p (Suc 0) pfn (prot_sect type) j"
  proof cases
    case 1
    then show ?thesis
      by (simp add: remap_pgd_sections_def sections_pgd_def Let_def set_init_pgd_def log_def
          init_pgd_def init_mm_def PAGE_SHIFT_def SZ_1M_def)
  next
    case 2
    then show ?thesis
      by (simp add: remap_pgd_sections_def sections_pgd_def Let_def set_init_pgd_def log_def
          init_pgd_def init_mm_def PAGE_SHIFT_def SZ_1M_def)
  next
    case 3
    then have "j \<noteq> 2 * p" "j \<noteq> Suc (2 * p)" "\<not> (p \<le> j div 2 \<and> j div 2 < p + Suc 0)"
      by auto
    then show ?thesis
      by (auto simp: remap_pgd_sections_def sections_pgd_def Let_def set_init_pgd_def log_def
          init_pgd_def init_mm_def)
  qed
qed

lemma sections_pgd_Suc:
  "sections_pgd (sections_pgd tab p (Suc 0) pfn prot) (Suc p) n (pfn + 512) prot
     = sections_pgd tab p (Suc n) pfn prot"
proof (rule ext)
  fix j
  show "sections_pgd (sections_pgd tab p (Suc 0) pfn prot) (Suc p) n (pfn + 512) prot j
      = sections_pgd tab p (Suc n) pfn prot j"
  proof (cases "Suc p \<le> j div 2")
    case True
    then have "j - 2 * p = Suc (Suc (j - 2 * Suc p))" by simp
    then have "(of_nat (j - 2 * p) :: u32) = of_nat (j - 2 * Suc p) + 2"
      by (simp only: of_nat_Suc) simp
    then have "pfn + 512 + 256 * of_nat (j - 2 * Suc p) = pfn + 256 * (of_nat (j - 2 * p) :: u32)"
      by (simp add: algebra_simps)
    with True show ?thesis by (auto simp: sections_pgd_def)
  next
    case False
    then show ?thesis by (auto simp: sections_pgd_def)
  qed
qed

lemma remap_sections_loop_aligned:
  "unat a + n * 2097152 = unat end_addr \<Longrightarrow> 0 < n \<Longrightarrow> pgd + n \<le> PTRS_PER_PGD \<Longrightarrow>
   \<exists>s'. remap_sections_loop pgd a end_addr pfn type s = Ret 0 s' \<and>
        init_pgd s' = sections_pgd (init_pgd s) pgd n pfn (prot_sect type)"
proof (induction n arbitrary: pgd a pfn s)
  case 0
  then show ?case by simp
next
  case (Suc n)
  let ?s1 = "snd (remap_pgd_sections pgd pfn type s)"
  from Suc.prems have pgd: "\<not> PTRS_PER_PGD \<le> pgd" by simp
  from Suc.prems have a': "unat (a + PGDIR_SIZE) = unat a + 2097152"
    by (intro unat_add_pgdir [of a end_addr]) simp
  show ?case
  proof (cases "n = 0")
    case True
    with Suc.prems a' have "\<not> a + PGDIR_SIZE < end_addr"
      by (simp add: word_less_nat_alt)
    with pgd have "remap_sections_loop pgd a end_addr pfn type s = Ret 0 ?s1"
      by (subst remap_sections_loop.simps) (simp add: Let_def case_prod_beta)
    with True show ?thesis
      by (simp add: remap_pgd_sections_pgd)
  next
    case False
    with Suc.prems a' have lt: "a + PGDIR_SIZE < end_addr"
      by (simp add: word_less_nat_alt)
    from Suc.prems a' have 1: "unat (a + PGDIR_SIZE) + n * 2097152 = unat end_addr" by simp
    from False have 2: "0 < n" by simp
    from Suc.prems have 3: "pgd + 1 + n \<le> PTRS_PER_PGD" by simp
    from Suc.IH [OF 1 2 3, of "pfn + 512" ?s1] obtain s' where
      s': "remap_sections_loop (pgd + 1) (a + PGDIR_SIZE) end_addr (pfn + 512) type ?s1 = Ret 0 s'"
        "init_pgd s' = sections_pgd (init_pgd ?s1) (pgd + 1) n (pfn + 512) (prot_sect type)"
      by blast
    from pgd lt s'(1) have "remap_sections_loop pgd a end_addr pfn type s = Ret 0 s'"
      by (subst remap_sections_loop.simps)
         (simp add: Let_def case_prod_beta remap_pgd_sections_fst)
    moreover from s'(2) have
      "init_pgd s' = sections_pgd (init_pgd s) pgd (Suc n) pfn (prot_sect type)"
      by (simp add: remap_pgd_sections_pgd sections_pgd_Suc)
    ultimately show ?thesis by blast
  qed
qed

lemma remap_sections_loop_trace:
  "\<exists>evs. trace (final_state (remap_sections_loop pgd a end_addr pfn type s)) = trace s @ evs"
proof (induction pgd a end_addr pfn type s rule: remap_sections_loop.induct)
  case (1 pgd a end_addr pfn type s)
  let ?s1 = "snd (remap_pgd_sections pgd pfn type s)"
  show ?case
  proof (cases "PTRS_PER_PGD \<le> pgd")
    case True
    then show ?thesis by (subst remap_sections_loop.simps) simp
  next
    case False
    show ?thesis
    proof (cases "a + PGDIR_SIZE < end_addr")
      case True
      from "1.IH" [OF False refl prod.collapse refl True]
      obtain evs where "trace (final_state (remap_sections_loop (pgd + 1) (a + PGDIR_SIZE) end_addr
          (fst (remap_pgd_sections pgd pfn type s)) type ?s1)) = trace ?s1 @ evs"
        by auto
      with False True show ?thesis
        by (subst remap_sections_loop.simps)
           (simp add: Let_def case_prod_beta remap_pgd_sections_trace)
    next
      case F: False
      with False show ?thesis
        by (subst remap_sections_loop.simps)
           (simp add: Let_def case_prod_beta remap_pgd_sections_trace)
    qed
  qed
qed

lemma supersection_for_trace:
  "\<exists>evs. trace (final_state (supersection_for i pgd a v s)) = trace s @ evs"
proof (induction i pgd a v s rule: supersection_for.induct)
  case (1 i pgd a v s)
  let ?s3 = "log (Flush_pmd_entry (2 * pgd)) (set_init_pgd (2 * pgd + 1) v (set_init_pgd (2 * pgd) v s))"
  show ?case
  proof (cases "i < 8 \<and> \<not> PTRS_PER_PGD \<le> pgd")
    case True
    with "1.IH" [OF _ _ refl refl refl refl] obtain evs where
      "trace (final_state (supersection_for (i + 1) (pgd + 1) (a + PGDIR_SIZE) v ?s3)) = trace ?s3 @ evs"
      by auto
    with True show ?thesis
      by (subst supersection_for.simps) (simp add: Let_def set_init_pgd_def)
  next
    case False
    then show ?thesis
      by (subst supersection_for.simps) auto
  qed
qed

lemma remap_supersections_loop_trace:
  "\<exists>evs. trace (final_state (remap_supersections_loop pgd a end_addr pfn type s)) = trace s @ evs"
proof (induction pgd a end_addr pfn type s rule: remap_supersections_loop.induct)
  case (1 pgd a end_addr pfn type s)
  let ?v = "(pfn_to_phys pfn OR prot_sect type OR PMD_SECT_SUPER) OR
            push_bit 20 (drop_bit (32 - PAGE_SHIFT) pfn AND 0xf)"
  from supersection_for_trace [of 0 pgd a ?v s] obtain evs where
    evs: "trace (final_state (supersection_for 0 pgd a ?v s)) = trace s @ evs" ..
  show ?case
  proof (cases "supersection_for 0 pgd a ?v s")
    case (Fatal f s1)
    with evs show ?thesis
      by (subst remap_supersections_loop.simps) (simp add: Let_def)
  next
    case (Ret r s1)
    obtain pgd' a' where r: "r = (pgd', a')" by (cases r)
    show ?thesis
    proof (cases "a' < end_addr")
      case True
      from "1.IH" [OF refl refl Ret [unfolded r] refl refl True] obtain evs' where
        "trace (final_state (remap_supersections_loop pgd' a' end_addr
            (pfn + drop_bit PAGE_SHIFT SUPERSECTION_SIZE) type s1)) = trace s1 @ evs'"
        by auto
      with evs Ret r True show ?thesis
        by (subst remap_supersections_loop.simps) (simp add: Let_def)
    next
      case False
      with evs Ret r show ?thesis
        by (subst remap_supersections_loop.simps) (simp add: Let_def)
    qed
  qed
qed

text \<open>
  C7: the teardown of \<open>n\<close> units of 2 MiB returns (an empty entry is no error) and
  leaves every \<^verbatim>\<open>pgd_t\<close> pair of the range empty that had its first half set, the
  others untouched. The calls it makes are, in this order: the cache flush for the
  range, then for each pair that was not empty the clearing of the entry, followed
  by the release of the leaf table it pointed to if it pointed to one, then the TLB
  flush for the range. Both block mappers run this pass first: what they ask of the
  outside comes after it.
\<close>

theorem unmap_area_sections_teardown:
  assumes "unat virt + n * 2097152 = unat (virt + (sz AND NOT (SZ_1M - 1)))" and "0 < n"
  shows "\<exists>s'. unmap_area_sections cfg virt sz s = Ret () s' \<and>
      init_pgd s' = cleared_pgd (init_pgd s) (pgd_index virt) n \<and>
      trace s' = trace s @ Flush_cache_vunmap virt (virt + (sz AND NOT (SZ_1M - 1))) #
        concat (map (clear_events cfg (init_pgd s)) [pgd_index virt..<pgd_index virt + n]) @
        [Flush_tlb_kernel_range virt (virt + (sz AND NOT (SZ_1M - 1)))] \<and>
      (\<exists>evs. trace (final_state (remap_area_sections cfg virt pfn sz type s)) = trace s' @ evs) \<and>
      (\<exists>evs. trace (final_state (remap_area_supersections cfg virt pfn sz type s)) = trace s' @ evs)"
proof -
  from unmap_area_sections_aligned [OF assms, of cfg s] obtain s' where
    s': "unmap_area_sections cfg virt sz s = Ret () s'"
      "init_pgd s' = cleared_pgd (init_pgd s) (pgd_index virt) n"
      "trace s' = trace s @ Flush_cache_vunmap virt (virt + (sz AND NOT (SZ_1M - 1))) #
        concat (map (clear_events cfg (init_pgd s)) [pgd_index virt..<pgd_index virt + n]) @
        [Flush_tlb_kernel_range virt (virt + (sz AND NOT (SZ_1M - 1)))]"
    by blast
  from s'(1) have "\<exists>evs. trace (final_state (remap_area_sections cfg virt pfn sz type s)) = trace s' @ evs"
    by (simp add: remap_area_sections_def remap_sections_loop_trace)
  moreover
  from s'(1) have "\<exists>evs. trace (final_state (remap_area_supersections cfg virt pfn sz type s)) = trace s' @ evs"
    by (simp add: remap_area_supersections_def remap_supersections_loop_trace)
  ultimately show ?thesis using s' by blast
qed

theorem unmap_area_sections_teardown_witness:
  "\<exists>s'. unmap_area_sections up_cfg 0xE0000000 0x400000 table_mapped = Ret () s' \<and>
      init_pgd s' 3584 = 0 \<and> init_pgd s' 3585 = 0 \<and> init_pgd s' 3586 = 0 \<and>
      trace s' = [Flush_cache_vunmap 0xE0000000 0xE0400000, Pmd_clear 3584,
                  Pte_free_kernel 0x9F000000, Flush_tlb_kernel_range 0xE0000000 0xE0400000]"
proof -
  have *: "pgd_index 0xE0000000 = 1792" "(0x400000 :: u32) AND NOT (SZ_1M - 1) = 0x400000"
    by (simp_all add: pgd_index_def hw_defs)
  from unmap_area_sections_teardown [of "0xE0000000" 2 "0x400000" up_cfg table_mapped]
  obtain s' where "unmap_area_sections up_cfg 0xE0000000 0x400000 table_mapped = Ret () s'"
    "init_pgd s' = cleared_pgd (init_pgd table_mapped) (pgd_index 0xE0000000) 2"
    "trace s' = trace table_mapped @ Flush_cache_vunmap 0xE0000000 (0xE0000000 + (0x400000 AND NOT (SZ_1M - 1))) #
        concat (map (clear_events up_cfg (init_pgd table_mapped)) [pgd_index 0xE0000000..<pgd_index 0xE0000000 + 2]) @
        [Flush_tlb_kernel_range 0xE0000000 (0xE0000000 + (0x400000 AND NOT (SZ_1M - 1)))]"
    by (auto simp: *)
  then show ?thesis
    by (simp add: * cleared_pgd_def clear_events_def table_mapped_def boot_def up_cfg_def
        init_pgd_def init_mm_def hw_defs)
qed

lemma remap_area_sections_aligned:
  assumes "unat virt + n * 2097152 = unat (virt + sz)" and "0 < n"
    and "sz AND NOT (SZ_1M - 1) = sz"
  shows "\<exists>s1 s'. unmap_area_sections cfg virt sz s = Ret () s1 \<and>
      remap_area_sections cfg virt pfn sz type s = Ret 0 s' \<and>
      init_pgd s' = sections_pgd (init_pgd s1) (pgd_index virt) n pfn (prot_sect type)"
proof -
  from assms have u: "unat virt + n * 2097152 = unat (virt + (sz AND NOT (SZ_1M - 1)))"
    by simp
  from unmap_area_sections_aligned [OF u assms(2), of cfg s] obtain s1 where
    s1: "unmap_area_sections cfg virt sz s = Ret () s1" by blast
  from remap_sections_loop_aligned [OF assms(1,2) pgd_index_bound [OF assms(1)], of pfn type s1]
  obtain s' where s': "remap_sections_loop (pgd_index virt) virt (virt + sz) pfn type s1 = Ret 0 s'"
    "init_pgd s' = sections_pgd (init_pgd s1) (pgd_index virt) n pfn (prot_sect type)"
    by blast
  from s1 s'(1) have "remap_area_sections cfg virt pfn sz type s = Ret 0 s'"
    by (simp add: remap_area_sections_def Let_def)
  with s1 s'(2) show ?thesis by blast
qed

text \<open>
  C6: over \<open>n\<close> units of 2 MiB, \<^verbatim>\<open>remap_area_sections\<close> returns 0 and leaves, in the two
  halves of the \<open>k\<close>-th \<^verbatim>\<open>pgd_t\<close>, the section entries of the frames \<open>pfn + 512 * k\<close> and
  \<open>pfn + 512 * k + 256\<close>: 256 pages, one section, between the two writes, and again
  after the second.
\<close>

theorem remap_area_sections_entries:
  assumes "unat virt + n * 2097152 = unat (virt + sz)" and "0 < n"
    and "sz AND NOT (SZ_1M - 1) = sz"
  shows "\<exists>s'. remap_area_sections cfg virt pfn sz type s = Ret 0 s' \<and>
      (\<forall>k<n. init_pgd s' (2 * (pgd_index virt + k))
                 = pfn_to_phys (pfn + of_nat (512 * k)) OR prot_sect type \<and>
              init_pgd s' (2 * (pgd_index virt + k) + 1)
                 = pfn_to_phys (pfn + of_nat (512 * k) + 256) OR prot_sect type)"
proof -
  from assms have u: "unat virt + n * 2097152 = unat (virt + (sz AND NOT (SZ_1M - 1)))"
    by simp
  from unmap_area_sections_aligned [OF u assms(2), of cfg s] obtain s1 where
    s1: "unmap_area_sections cfg virt sz s = Ret () s1" by blast
  from remap_sections_loop_aligned [OF assms(1,2) pgd_index_bound [OF assms(1)], of pfn type s1]
  obtain s' where s': "remap_sections_loop (pgd_index virt) virt (virt + sz) pfn type s1 = Ret 0 s'"
    "init_pgd s' = sections_pgd (init_pgd s1) (pgd_index virt) n pfn (prot_sect type)"
    by blast
  from s1 s'(1) have "remap_area_sections cfg virt pfn sz type s = Ret 0 s'"
    by (simp add: remap_area_sections_def Let_def)
  moreover have "init_pgd s' (2 * (pgd_index virt + k))
        = pfn_to_phys (pfn + of_nat (512 * k)) OR prot_sect type \<and>
      init_pgd s' (2 * (pgd_index virt + k) + 1)
        = pfn_to_phys (pfn + of_nat (512 * k) + 256) OR prot_sect type" if "k < n" for k
  proof -
    have "(2 * (pgd_index virt + k) + 1) div 2 = pgd_index virt + k" by simp
    with that s'(2) show ?thesis
      by (simp add: sections_pgd_def algebra_simps)
  qed
  ultimately show ?thesis by blast
qed

theorem remap_area_sections_entries_witness:
  "\<exists>s'. remap_area_sections up_cfg 0xE0000000 0x10000 0x400000 \<lparr>prot_pte = 0x43, prot_sect = 0x402\<rparr>
            table_mapped = Ret 0 s' \<and>
      init_pgd s' 3584 = 0x10000402 \<and> init_pgd s' 3585 = 0x10100402 \<and>
      init_pgd s' 3586 = 0x10200402 \<and> init_pgd s' 3587 = 0x10300402"
proof -
  have *: "pgd_index 0xE0000000 = 1792" "(0x400000 :: u32) AND NOT (SZ_1M - 1) = 0x400000"
    by (simp_all add: pgd_index_def hw_defs)
  from remap_area_sections_entries [of "0xE0000000" 2 "0x400000" up_cfg "0x10000"
      "\<lparr>prot_pte = 0x43, prot_sect = 0x402\<rparr>" table_mapped]
  obtain s' where s': "remap_area_sections up_cfg 0xE0000000 0x10000 0x400000
       \<lparr>prot_pte = 0x43, prot_sect = 0x402\<rparr> table_mapped = Ret 0 s'"
    "\<forall>k<2. init_pgd s' (2 * (pgd_index 0xE0000000 + k))
                 = pfn_to_phys (0x10000 + of_nat (512 * k)) OR 0x402 \<and>
            init_pgd s' (2 * (pgd_index 0xE0000000 + k) + 1)
                 = pfn_to_phys (0x10000 + of_nat (512 * k) + 256) OR 0x402"
    by (auto simp: *)
  from s'(2) [rule_format, of 0] s'(2) [rule_format, of 1] s'(1) show ?thesis
    by (simp add: * pfn_to_phys_def PAGE_SHIFT_def)
qed

section \<open>Granularity selection\<close>

lemma or_and_zero:
  "((x OR y OR z) AND m = 0) = (x AND m = 0 \<and> y AND m = 0 \<and> z AND m = 0)" for x :: u32
  by (simp add: bit.conj_disj_distrib2 or_eq_0_iff)

text \<open>
  C1, as the code has it. Supersections are selected exactly on a uniprocessor build
  with \<^verbatim>\<open>DOMAIN_IO\<close> 0, the extended mode reported (architecture v6 or later with the XP
  bit, or an XScale3), a frame number of at least \<open>0x100000\<close>, and frame address, size
  and virtual base all aligned to 16 MiB; otherwise sections exactly on a
  uniprocessor build with all three aligned to 2 MiB; otherwise pages. The choice is
  a function of the configuration and the three numbers alone.
\<close>

theorem select_granularity_policy:
  "select_granularity cfg pfn sz a =
     (if \<not> CONFIG_SMP cfg \<and> DOMAIN_IO cfg = 0 \<and>
         ((CPU_ARCH_ARMv6 \<le> cpu_architecture cfg \<and> get_cr cfg AND CR_XP \<noteq> 0) \<or> cpu_is_xsc3 cfg) \<and>
         0x100000 \<le> pfn \<and>
         pfn_to_phys pfn AND NOT SUPERSECTION_MASK = 0 \<and> sz AND NOT SUPERSECTION_MASK = 0 \<and>
         a AND NOT SUPERSECTION_MASK = 0
      then Supersections
      else if \<not> CONFIG_SMP cfg \<and>
         pfn_to_phys pfn AND NOT PMD_MASK = 0 \<and> sz AND NOT PMD_MASK = 0 \<and> a AND NOT PMD_MASK = 0
      then Sections
      else Pages)"
  unfolding select_granularity_def or_and_zero by auto

theorem select_granularity_policy_witness:
  "select_granularity up_cfg 0x100000 0x1000000 0xE0000000 = Supersections \<and>
   select_granularity up_cfg 0x1000 0x1000000 0xE0000000 = Sections \<and>
   select_granularity up_cfg 0x1000 0x2000 0xE0000000 = Pages \<and>
   select_granularity (up_cfg\<lparr>CONFIG_SMP := True\<rparr>) 0x100000 0x1000000 0xE0000000 = Pages"
  using select_granularity_policy [of up_cfg "0x100000" "0x1000000" "0xE0000000"]
    select_granularity_policy [of up_cfg "0x1000" "0x1000000" "0xE0000000"]
    select_granularity_policy [of up_cfg "0x1000" "0x2000" "0xE0000000"]
    select_granularity_policy [of "up_cfg\<lparr>CONFIG_SMP := True\<rparr>" "0x100000" "0x1000000" "0xE0000000"]
  by (simp add: up_cfg_def hw_defs pfn_to_phys_def)

text \<open>
  C1 as stated fails: frame \<open>0x1000\<close> (physical \<open>0x1000000\<close>), size and virtual base
  aligned to 16 MiB, uniprocessor, extended mode reported, and yet the frame number is
  below \<open>0x100000\<close>, so the request is not mapped with supersections.
\<close>

theorem select_granularity_counterexample:
  "\<not> (select_granularity up_cfg 0x1000 0x1000000 0xE0000000 = Supersections \<longleftrightarrow>
        \<not> CONFIG_SMP up_cfg \<and>
        ((CPU_ARCH_ARMv6 \<le> cpu_architecture up_cfg \<and> get_cr up_cfg AND CR_XP \<noteq> 0) \<or>
         cpu_is_xsc3 up_cfg) \<and>
        pfn_to_phys 0x1000 AND NOT SUPERSECTION_MASK = 0 \<and>
        (0x1000000 :: u32) AND NOT SUPERSECTION_MASK = 0 \<and>
        (0xE0000000 :: u32) AND NOT SUPERSECTION_MASK = 0)"
  by (simp add: select_granularity_def up_cfg_def hw_defs pfn_to_phys_def)

text \<open>
  The same two facts seen from the entry points: without \<^verbatim>\<open>CONFIG_IO_36\<close> (\<^verbatim>\<open>DOMAIN_IO\<close> not
  0) supersections are never selected, and a request of 16 MiB at the physical
  address \<open>0x1000000\<close>, aligned to 16 MiB in every respect, is mapped by
  \<^verbatim>\<open>__arm_ioremap\<close> with sixteen plain section entries.
\<close>

lemma no_supersections_without_io_domain_0:
  "DOMAIN_IO cfg \<noteq> 0 \<Longrightarrow> select_granularity cfg pfn sz a \<noteq> Supersections"
  by (simp add: select_granularity_def)

lemma arm_ioremap_below_4G_uses_sections:
  "\<exists>s'. arm_ioremap up_cfg 0x1000000 0x1000000 0 boot = Ret 0xE0000000 s' \<and>
        init_pgd s' 3584 = 0x1000402 \<and> init_pgd s' 3585 = 0x1100402 \<and>
        init_pgd s' 3599 = 0x1F00402 \<and> init_pgd s' 3584 AND PMD_SECT_SUPER = 0"
proof -
  let ?type = "\<lparr>prot_pte = 0x43, prot_sect = 0x402\<rparr>"
  let ?s1 = "mark_section_mapping 0xE0000000
      (boot\<lparr>vmlist := [\<lparr>vm_addr = 0xE0000000, vm_size = 0x1001000, vm_flags = VM_IOREMAP\<rparr>]\<rparr>)"
  have idx: "pgd_index 0xE0000000 = 1792"
    by (simp add: pgd_index_def PGDIR_SHIFT_def)
  from remap_area_sections_aligned [of "0xE0000000" 8 "0x1000000" up_cfg ?s1 "0x1000" ?type]
  obtain s2 where s2: "remap_area_sections up_cfg 0xE0000000 0x1000 0x1000000 ?type ?s1 = Ret 0 s2"
    "init_pgd s2 3584 = 0x1000402" "init_pgd s2 3585 = 0x1100402" "init_pgd s2 3599 = 0x1F00402"
    by (auto simp: idx sections_pgd_def SZ_1M_def pfn_to_phys_def PAGE_SHIFT_def)
  then have "arm_ioremap up_cfg 0x1000000 0x1000000 0 boot
      = Ret 0xE0000000 (log (Flush_cache_vmap 0xE0000000 0xE1000000) s2)"
    by (simp add: arm_ioremap_def arm_ioremap_caller_def arm_ioremap_pfn_caller_def
        select_granularity_def get_vm_area_def up_cfg_def boot_def pfn_to_phys_def
        phys_to_pfn_def PAGE_ALIGN_def hw_defs)
  with s2 show ?thesis
    by (simp add: PMD_SECT_SUPER_def)
qed

end
